theory Spec2Isabelle
  imports Main
begin

section \<open>Exceptions of tree-base.hpp as error values\<close>

text \<open>
  The header declares three exception classes: \<^verbatim>\<open>RuntimeError\<close> (a
  \<^verbatim>\<open>std::runtime_error\<close>), \<^verbatim>\<open>NotWellFormed\<close> (a subclass of
  \<^verbatim>\<open>RuntimeError\<close>) and \<^verbatim>\<open>OutOfRange\<close> (a subclass of
  \<^verbatim>\<open>std::out_of_range\<close>). \<^verbatim>\<open>std::vector::at\<close> throws a plain
  \<^verbatim>\<open>std::out_of_range\<close>. A failure of the external CBOR reader (a missing key, a
  value of the wrong kind) is \<open>ReaderError\<close>. Every function that can throw returns
  \<open>error + 'a\<close>, with \<open>Inl\<close> for the exception.
\<close>

datatype error =
    RuntimeError string
  | NotWellFormed string
  | OutOfRange string
  | std_out_of_range
  | ReaderError

text \<open>What a \<^verbatim>\<open>catch (NotWellFormed &)\<close> handler accepts.\<close>

fun is_NotWellFormed :: "error \<Rightarrow> bool" where
  "is_NotWellFormed (NotWellFormed msg) = True"
| "is_NotWellFormed e = False"

text \<open>What a \<^verbatim>\<open>catch (RuntimeError &)\<close> handler accepts: the class and its subclass.\<close>

fun is_RuntimeError :: "error \<Rightarrow> bool" where
  "is_RuntimeError (RuntimeError msg) = True"
| "is_RuntimeError (NotWellFormed msg) = True"
| "is_RuntimeError e = False"

text \<open>What a \<^verbatim>\<open>catch (std::out_of_range &)\<close> handler accepts.\<close>

fun is_out_of_range :: "error \<Rightarrow> bool" where
  "is_out_of_range (OutOfRange msg) = True"
| "is_out_of_range std_out_of_range = True"
| "is_out_of_range e = False"

section \<open>Single-child owning edges: Maybe and One\<close>

text \<open>
  \<^verbatim>\<open>Maybe<T>\<close> and its subclass \<^verbatim>\<open>One<T>\<close> hold one field,
  \<^verbatim>\<open>std::shared_ptr<T> val\<close>. A shared pointer is an \<open>option\<close>: \<open>None\<close> is the
  null pointer, \<open>Some n\<close> points to the node \<open>n\<close>. The two classes differ only in
  their virtual functions, which are separate functions below.
\<close>

type_synonym 'a shared_ptr = "'a option"

text \<open>\<^verbatim>\<open>Maybe() : val() {}\<close>\<close>

definition Maybe_new :: "'a shared_ptr" where
  "Maybe_new = None"

text \<open>\<^verbatim>\<open>bool empty() const { return val == nullptr; }\<close>\<close>

definition Maybe_empty :: "'a shared_ptr \<Rightarrow> bool" where
  "Maybe_empty val = (val = None)"

text \<open>\<^verbatim>\<open>void reset() { val.reset(); }\<close>\<close>

definition Maybe_reset :: "'a shared_ptr \<Rightarrow> 'a shared_ptr" where
  "Maybe_reset val = None"

text \<open>\<^verbatim>\<open>T &deref() const\<close>: throws \<^verbatim>\<open>OutOfRange\<close> when empty. The second
  argument is \<^verbatim>\<open>typeid(T).name()\<close>.\<close>

definition Maybe_deref :: "'a shared_ptr \<Rightarrow> string \<Rightarrow> error + 'a" where
  "Maybe_deref val tname =
     (case val of
        None \<Rightarrow> Inl (OutOfRange (''dereferencing empty Maybe/One object or type '' @ tname))
      | Some n \<Rightarrow> Inr n)"

section \<open>Sequence edges: Any and Many\<close>

text \<open>
  \<^verbatim>\<open>Any<T>\<close> and its subclass \<^verbatim>\<open>Many<T>\<close> hold
  \<^verbatim>\<open>std::vector<One<T>> vec\<close>: a list of shared pointers, each of which may be null.
  Positions are \<^verbatim>\<open>signed_size_t\<close> (an \<open>int\<close> here), indices and sizes are
  \<^verbatim>\<open>size_t\<close> (a \<open>nat\<close>). The cast \<^verbatim>\<open>(size_t)pos\<close> is only evaluated
  when \<^verbatim>\<open>pos < 0\<close> is false, where it keeps the value.
\<close>

text \<open>\<^verbatim>\<open>std::vector::emplace(cbegin() + pos, x)\<close>: constructs \<open>x\<close> before the
  element at \<open>pos\<close>. The source calls it with \<open>pos < size\<close> only; past the end (undefined
  in C++) the model appends.\<close>

fun vector_emplace :: "nat \<Rightarrow> 'a \<Rightarrow> 'a list \<Rightarrow> 'a list" where
  "vector_emplace 0 x xs = x # xs"
| "vector_emplace (Suc n) x [] = [x]"
| "vector_emplace (Suc n) x (y # ys) = y # vector_emplace n x ys"

text \<open>\<^verbatim>\<open>std::vector::erase(cbegin() + pos)\<close>: removes the element at \<open>pos\<close>. The
  source calls it with \<open>pos < size\<close> only; past the end (undefined in C++) the model
  removes nothing.\<close>

fun vector_erase :: "nat \<Rightarrow> 'a list \<Rightarrow> 'a list" where
  "vector_erase n [] = []"
| "vector_erase 0 (y # ys) = ys"
| "vector_erase (Suc n) (y # ys) = y # vector_erase n ys"

text \<open>\<^verbatim>\<open>Any() = default;\<close>\<close>

definition Any_new :: "'a shared_ptr list" where
  "Any_new = []"

text \<open>\<^verbatim>\<open>size_t size() const { return vec.size(); }\<close>\<close>

definition Any_size :: "'a shared_ptr list \<Rightarrow> nat" where
  "Any_size vec = length vec"

text \<open>\<^verbatim>\<open>bool empty() const { return vec.empty(); }\<close>\<close>

definition Any_empty :: "'a shared_ptr list \<Rightarrow> bool" where
  "Any_empty vec = (vec = [])"

text \<open>
  \<^verbatim>\<open>
  void add(const Maybe<S> &ob, signed_size_t pos=-1) {
      if (ob.empty()) { return; }
      if (pos < 0 || (size_t)pos >= size()) { this->vec.emplace_back(...ob.get_ptr()); }
      else { this->vec.emplace(this->vec.cbegin() + pos, ...ob.get_ptr()); }
  }
  \<close>
\<close>

definition Any_add :: "'a shared_ptr \<Rightarrow> int \<Rightarrow> 'a shared_ptr list \<Rightarrow> 'a shared_ptr list" where
  "Any_add ob pos vec =
     (if Maybe_empty ob then vec
      else if pos < 0 \<or> Any_size vec \<le> nat pos then vec @ [ob]
      else vector_emplace (nat pos) ob vec)"

text \<open>
  \<^verbatim>\<open>
  void remove(signed_size_t pos=-1) {
      if (size() == 0) { return; }
      if (pos < 0 || (size_t)pos >= size()) { pos = size() - 1; }
      this->vec.erase(this->vec.cbegin() + pos);
  }
  \<close>
\<close>

definition Any_remove :: "int \<Rightarrow> 'a shared_ptr list \<Rightarrow> 'a shared_ptr list" where
  "Any_remove pos vec =
     (if Any_size vec = 0 then vec
      else let pos' = (if pos < 0 \<or> Any_size vec \<le> nat pos then int (Any_size vec - 1) else pos)
           in vector_erase (nat pos') vec)"

text \<open>\<^verbatim>\<open>void reset() { vec.clear(); }\<close>\<close>

definition Any_reset :: "'a shared_ptr list \<Rightarrow> 'a shared_ptr list" where
  "Any_reset vec = []"

text \<open>\<^verbatim>\<open>One<T> &at(size_t index) { return vec.at(index); }\<close>:
  \<^verbatim>\<open>std::vector::at\<close> throws \<^verbatim>\<open>std::out_of_range\<close> unless
  \<open>index < size\<close>.\<close>

definition Any_at :: "nat \<Rightarrow> 'a shared_ptr list \<Rightarrow> error + 'a shared_ptr" where
  "Any_at index vec = (if index < length vec then Inr (vec ! index) else Inl std_out_of_range)"

text \<open>
  \<^verbatim>\<open>
  Maybe<T> front() { if (vec.empty()) { return Maybe<T>(); } else { return vec.front(); } }
  Maybe<T> back()  { if (vec.empty()) { return Maybe<T>(); } else { return vec.back(); } }
  \<close>
  Neither has a throwing path, so both return a plain \<open>Maybe\<close>.
\<close>

definition Any_front :: "'a shared_ptr list \<Rightarrow> 'a shared_ptr" where
  "Any_front vec = (if vec = [] then Maybe_new else hd vec)"

definition Any_back :: "'a shared_ptr list \<Rightarrow> 'a shared_ptr" where
  "Any_back vec = (if vec = [] then Maybe_new else last vec)"

text \<open>A series of \<^verbatim>\<open>add\<close> calls, each with its own argument and position.\<close>

fun Any_add_all :: "('a shared_ptr \<times> int) list \<Rightarrow> 'a shared_ptr list \<Rightarrow> 'a shared_ptr list" where
  "Any_add_all [] vec = vec"
| "Any_add_all ((ob, pos) # calls) vec = Any_add_all calls (Any_add ob pos vec)"

section \<open>Nodes and edges of a tree\<close>

text \<open>
  The edge classes are templates over the node type \<^verbatim>\<open>T\<close>, and the node classes are
  emitted by the generator; the header only fixes what every node offers
  (\<^verbatim>\<open>Completable\<close>). A node is modelled by what the library sees of it: the address
  of the object (its identity: the raw pointer \<^verbatim>\<open>PointerMap\<close> keys on), the name
  of its class, and its edge fields in declaration order. Every edge carries
  \<^verbatim>\<open>typeid(T).name()\<close> of its declared element type. A link holds a
  \<^verbatim>\<open>std::weak_ptr<T>\<close>: \<open>Some a\<close> when \<^verbatim>\<open>lock()\<close> yields the node at
  address \<open>a\<close>, \<open>None\<close> when the link is unset or expired.

  A node held by two owning edges is the same address at two places of the value. The
  values are finite, so a node that owns itself through a cycle of owning edges is not among
  them; links, which hold addresses, may point anywhere.
\<close>

type_synonym addr = nat

text \<open>A raw \<^verbatim>\<open>const void *\<close>; \<open>None\<close> is \<^verbatim>\<open>nullptr\<close>.\<close>

type_synonym ptr = "addr option"

datatype node = Node (node_addr: addr) (node_type: string) (node_fields: "(string \<times> edge) list")
  and edge =
    Maybe_edge string "node shared_ptr"
  | One_edge string "node shared_ptr"
  | Any_edge string "node shared_ptr list"
  | Many_edge string "node shared_ptr list"
  | OptLink_edge string "addr option"
  | Link_edge string "addr option"

text \<open>The dynamic class of an edge object, for the virtual
  \<^verbatim>\<open>serdes_edge_type()\<close>.\<close>

datatype edge_class = Maybe_class | One_class | Any_class | Many_class | OptLink_class | Link_class

fun serdes_edge_type :: "edge_class \<Rightarrow> string" where
  "serdes_edge_type Maybe_class = ''?''"
| "serdes_edge_type One_class = ''1''"
| "serdes_edge_type Any_class = ''*''"
| "serdes_edge_type Many_class = ''+''"
| "serdes_edge_type OptLink_class = ''@''"
| "serdes_edge_type Link_class = ''$''"

text \<open>\<^verbatim>\<open>OptLink::empty(): return val.expired();\<close>\<close>

definition OptLink_empty :: "addr option \<Rightarrow> bool" where
  "OptLink_empty val = (val = None)"

section \<open>PointerMap\<close>

text \<open>
  \<^verbatim>\<open>std::unordered_map<const void*, size_t> map\<close>, as the list of its entries in the
  order they were added.
\<close>

type_synonym PointerMap = "(ptr \<times> nat) list"

text \<open>
  Modelled from the spec: \<^verbatim>\<open>PointerMap::add_raw\<close> is declared in the header and
  defined in tree-base.cpp, which is not among the sources. The header says of
  \<^verbatim>\<open>add\<close>: "Registers a node pointer and gives it a sequence number. If a duplicate
  node is found, this raises a NotWellFormed"; the spec: "register its identity in the
  identity map with the next sequence number". The next sequence number is the number of
  entries so far. The text of the message is not specified.
\<close>

definition add_raw :: "ptr \<Rightarrow> string \<Rightarrow> PointerMap \<Rightarrow> error + nat \<times> PointerMap" where
  "add_raw p name m =
     (case map_of m p of
        Some i \<Rightarrow> Inl (NotWellFormed (''Duplicate node of type '' @ name @ '' found in tree''))
      | None \<Rightarrow> Inr (length m, m @ [(p, length m)]))"

text \<open>
  Modelled from the spec: \<^verbatim>\<open>PointerMap::get_raw\<close> is declared in the header and
  defined in tree-base.cpp, which is not among the sources. The header says of
  \<^verbatim>\<open>get\<close>: "Returns the sequence number of a previously added node. If the node was
  not previously added, this raises a NotWellFormed". The text of the message is not
  specified.
\<close>

definition get_raw :: "ptr \<Rightarrow> string \<Rightarrow> PointerMap \<Rightarrow> error + nat" where
  "get_raw p name m =
     (case map_of m p of
        None \<Rightarrow> Inl (NotWellFormed (''Link to node of type '' @ name @ '' not found in tree''))
      | Some i \<Rightarrow> Inr i)"

text \<open>\<^verbatim>\<open>PointerMap::add(const Maybe<T> &ob)\<close>:
  \<^verbatim>\<open>add_raw(ob.get_ptr().get(), typeid(T).name())\<close>.\<close>

definition PointerMap_add :: "string \<Rightarrow> node shared_ptr \<Rightarrow> PointerMap \<Rightarrow> error + nat \<times> PointerMap" where
  "PointerMap_add tname ob m = add_raw (map_option node_addr ob) tname m"

text \<open>\<^verbatim>\<open>PointerMap::get(const Maybe<T> &ob)\<close>\<close>

definition PointerMap_get :: "string \<Rightarrow> node shared_ptr \<Rightarrow> PointerMap \<Rightarrow> error + nat" where
  "PointerMap_get tname ob m = get_raw (map_option node_addr ob) tname m"

text \<open>\<^verbatim>\<open>PointerMap::get(const OptLink<T> &ob)\<close>: the pointer is
  \<^verbatim>\<open>ob.get_ptr().get()\<close>, null for an empty link.\<close>

definition PointerMap_get_link :: "string \<Rightarrow> addr option \<Rightarrow> PointerMap \<Rightarrow> error + nat" where
  "PointerMap_get_link tname ob m = get_raw ob tname m"

section \<open>Phase 1: find\_reachable\<close>

text \<open>\<^verbatim>\<open>OptLink::find_reachable(PointerMap &map) const { (void)map; }\<close>, inherited by
  \<^verbatim>\<open>Link\<close>.\<close>

definition OptLink_find_reachable :: "addr option \<Rightarrow> PointerMap \<Rightarrow> error + PointerMap" where
  "OptLink_find_reachable val m = Inr m"

text \<open>
  \<^verbatim>\<open>
  Maybe::find_reachable:  if (val) { map.add(*this); val->find_reachable(map); }
  Any::find_reachable:    for (auto &sptr : this->vec) { sptr.find_reachable(map); }
  \<close>
  \<^verbatim>\<open>One\<close> and \<^verbatim>\<open>Many\<close> inherit them. \<open>find_reachable\<close> on an edge is the
  virtual call, resolved by the edge's class.
\<close>

text \<open>
  Modelled from the spec: \<^verbatim>\<open>find_reachable\<close> of a node class is generated code,
  not among the sources. By the spec's "depth-first traversal following only owning
  edges" a node passes the map to each of its edge fields in order: the two functions
  \<open>node_find_reachable\<close> and \<open>fields_find_reachable\<close>. The other three are the source's.
\<close>

function node_find_reachable :: "node \<Rightarrow> PointerMap \<Rightarrow> error + PointerMap"
  and fields_find_reachable :: "(string \<times> edge) list \<Rightarrow> PointerMap \<Rightarrow> error + PointerMap"
  and find_reachable :: "edge \<Rightarrow> PointerMap \<Rightarrow> error + PointerMap"
  and Maybe_find_reachable :: "string \<Rightarrow> node shared_ptr \<Rightarrow> PointerMap \<Rightarrow> error + PointerMap"
  and Any_find_reachable :: "string \<Rightarrow> node shared_ptr list \<Rightarrow> PointerMap \<Rightarrow> error + PointerMap"
where
  "node_find_reachable (Node a t fs) m = fields_find_reachable fs m"
| "fields_find_reachable [] m = Inr m"
| "fields_find_reachable (f # fs) m =
     (case find_reachable (snd f) m of
        Inl e \<Rightarrow> Inl e
      | Inr m' \<Rightarrow> fields_find_reachable fs m')"
| "find_reachable (Maybe_edge tn val) m = Maybe_find_reachable tn val m"
| "find_reachable (One_edge tn val) m = Maybe_find_reachable tn val m"
| "find_reachable (Any_edge tn vec) m = Any_find_reachable tn vec m"
| "find_reachable (Many_edge tn vec) m = Any_find_reachable tn vec m"
| "find_reachable (OptLink_edge tn val) m = OptLink_find_reachable val m"
| "find_reachable (Link_edge tn val) m = OptLink_find_reachable val m"
| "Maybe_find_reachable tn None m = Inr m"
| "Maybe_find_reachable tn (Some n) m =
     (case PointerMap_add tn (Some n) m of
        Inl e \<Rightarrow> Inl e
      | Inr (i, m') \<Rightarrow> node_find_reachable n m')"
| "Any_find_reachable tn [] m = Inr m"
| "Any_find_reachable tn (sptr # vec) m =
     (case Maybe_find_reachable tn sptr m of
        Inl e \<Rightarrow> Inl e
      | Inr m' \<Rightarrow> Any_find_reachable tn vec m')"
  by pat_completeness auto
termination
  by (relation "measure (\<lambda>x. case x of
        Inl (Inl (n, m)) \<Rightarrow> 2 * size n
      | Inl (Inr (fs, m)) \<Rightarrow> 2 * size_list (size_prod (\<lambda>_. 0) size) fs
      | Inr (Inl (e, m)) \<Rightarrow> 2 * size e
      | Inr (Inr (Inl (tn, v, m))) \<Rightarrow> 2 * size_option size v + 1
      | Inr (Inr (Inr (tn, vec, m))) \<Rightarrow> 2 * size_list (size_option size) vec + 1)") auto

section \<open>Phase 2: check\_complete\<close>

text \<open>
  \<^verbatim>\<open>
  OptLink::check_complete:  if (!this->empty()) { map.get(*this); }
  Link::check_complete:     if (this->empty()) { throw NotWellFormed("'Link' edge of type "
                                + typeid(T).name() + " is empty"); }
                            map.get(*this);
  \<close>
\<close>

definition OptLink_check_complete :: "string \<Rightarrow> addr option \<Rightarrow> PointerMap \<Rightarrow> error + unit" where
  "OptLink_check_complete tn val m =
     (if \<not> OptLink_empty val
      then (case PointerMap_get_link tn val m of Inl e \<Rightarrow> Inl e | Inr i \<Rightarrow> Inr ())
      else Inr ())"

definition Link_check_complete :: "string \<Rightarrow> addr option \<Rightarrow> PointerMap \<Rightarrow> error + unit" where
  "Link_check_complete tn val m =
     (if OptLink_empty val
      then Inl (NotWellFormed ('''Link' edge of type '' @ tn @ '' is empty''))
      else (case PointerMap_get_link tn val m of Inl e \<Rightarrow> Inl e | Inr i \<Rightarrow> Inr ()))"

text \<open>
  \<^verbatim>\<open>
  Maybe::check_complete:  if (val) { val->check_complete(map); }
  One::check_complete:    if (!this->val) { throw NotWellFormed("'One' edge of type "
                              + typeid(T).name() + " is empty"); }
                          this->val->check_complete(map);
  Any::check_complete:    for (auto &sptr : this->vec) { sptr.check_complete(map); }
  Many::check_complete:   if (this->empty()) { throw NotWellFormed("'Many' edge of type "
                              + typeid(T).name() + " is empty"); }
                          Any<T>::check_complete(map);
  \<close>
  The elements of \<^verbatim>\<open>vec\<close> are \<^verbatim>\<open>One<T>\<close>, so the loop of
  \<^verbatim>\<open>Any::check_complete\<close> calls \<^verbatim>\<open>One::check_complete\<close>.
\<close>

text \<open>
  Modelled from the spec: \<^verbatim>\<open>check_complete\<close> of a node class is generated code, not
  among the sources. A node passes the map to each of its edge fields in order: the two
  functions \<open>node_check_complete\<close> and \<open>fields_check_complete\<close>. The other five are the
  source's.
\<close>

function node_check_complete :: "node \<Rightarrow> PointerMap \<Rightarrow> error + unit"
  and fields_check_complete :: "(string \<times> edge) list \<Rightarrow> PointerMap \<Rightarrow> error + unit"
  and check_complete :: "edge \<Rightarrow> PointerMap \<Rightarrow> error + unit"
  and Maybe_check_complete :: "node shared_ptr \<Rightarrow> PointerMap \<Rightarrow> error + unit"
  and One_check_complete :: "string \<Rightarrow> node shared_ptr \<Rightarrow> PointerMap \<Rightarrow> error + unit"
  and Any_check_complete :: "string \<Rightarrow> node shared_ptr list \<Rightarrow> PointerMap \<Rightarrow> error + unit"
  and Many_check_complete :: "string \<Rightarrow> node shared_ptr list \<Rightarrow> PointerMap \<Rightarrow> error + unit"
where
  "node_check_complete (Node a t fs) m = fields_check_complete fs m"
| "fields_check_complete [] m = Inr ()"
| "fields_check_complete (f # fs) m =
     (case check_complete (snd f) m of
        Inl e \<Rightarrow> Inl e
      | Inr u \<Rightarrow> fields_check_complete fs m)"
| "check_complete (Maybe_edge tn val) m = Maybe_check_complete val m"
| "check_complete (One_edge tn val) m = One_check_complete tn val m"
| "check_complete (Any_edge tn vec) m = Any_check_complete tn vec m"
| "check_complete (Many_edge tn vec) m = Many_check_complete tn vec m"
| "check_complete (OptLink_edge tn val) m = OptLink_check_complete tn val m"
| "check_complete (Link_edge tn val) m = Link_check_complete tn val m"
| "Maybe_check_complete None m = Inr ()"
| "Maybe_check_complete (Some n) m = node_check_complete n m"
| "One_check_complete tn None m =
     Inl (NotWellFormed ('''One' edge of type '' @ tn @ '' is empty''))"
| "One_check_complete tn (Some n) m = node_check_complete n m"
| "Any_check_complete tn [] m = Inr ()"
| "Any_check_complete tn (sptr # vec) m =
     (case One_check_complete tn sptr m of
        Inl e \<Rightarrow> Inl e
      | Inr u \<Rightarrow> Any_check_complete tn vec m)"
| "Many_check_complete tn vec m =
     (if Any_empty vec
      then Inl (NotWellFormed ('''Many' edge of type '' @ tn @ '' is empty''))
      else Any_check_complete tn vec m)"
  by pat_completeness auto
termination
  by (relation "measure (\<lambda>x. case x of
        Inl (Inl (n, m)) \<Rightarrow> 3 * size n
      | Inl (Inr (Inl (fs, m))) \<Rightarrow> 3 * size_list (size_prod (\<lambda>_. 0) size) fs
      | Inl (Inr (Inr (e, m))) \<Rightarrow> 3 * size e
      | Inr (Inl (Inl (v, m))) \<Rightarrow> 3 * size_option size v + 1
      | Inr (Inl (Inr (tn, v, m))) \<Rightarrow> 3 * size_option size v + 1
      | Inr (Inr (Inl (tn, vec, m))) \<Rightarrow> 3 * size_list (size_option size) vec + 1
      | Inr (Inr (Inr (tn, vec, m))) \<Rightarrow> 3 * size_list (size_option size) vec + 2)") auto

text \<open>
  Modelled from the spec: \<^verbatim>\<open>Completable::check_well_formed\<close> and
  \<^verbatim>\<open>is_well_formed\<close> are declared in the header and defined in tree-base.cpp, which
  is not among the sources. By the spec, \<^verbatim>\<open>check_well_formed()\<close> "composes both
  phases and propagates any structural error", on a map "built fresh by each validation
  pass", and \<^verbatim>\<open>is_well_formed()\<close> "converts a failure into a boolean false".
\<close>

definition check_well_formed :: "edge \<Rightarrow> error + unit" where
  "check_well_formed e =
     (case find_reachable e [] of
        Inl err \<Rightarrow> Inl err
      | Inr m \<Rightarrow> check_complete e m)"

definition is_well_formed :: "edge \<Rightarrow> bool" where
  "is_well_formed e = (case check_well_formed e of Inl err \<Rightarrow> False | Inr u \<Rightarrow> True)"

section \<open>The wire format\<close>

text \<open>
  Modelled from the spec: tree-cbor.hpp (the CBOR writer and reader) is not among the
  sources. The spec treats it as "an abstract writer/reader of maps, arrays, strings,
  integers, and null" and leaves the bit-level format out of scope, so a document is the
  value it encodes. A \<^verbatim>\<open>MapWriter\<close> is the list of the entries appended so far; an
  array or a nested map is appended once its content is written.
\<close>

datatype cbor = CNull | CInt int | CString string | CArray "cbor list" | CMap "(string \<times> cbor) list"

type_synonym MapWriter = "(string \<times> cbor) list"

definition append_string :: "string \<Rightarrow> string \<Rightarrow> MapWriter \<Rightarrow> MapWriter" where
  "append_string key s w = w @ [(key, CString s)]"

definition append_int :: "string \<Rightarrow> int \<Rightarrow> MapWriter \<Rightarrow> MapWriter" where
  "append_int key i w = w @ [(key, CInt i)]"

definition append_null :: "string \<Rightarrow> MapWriter \<Rightarrow> MapWriter" where
  "append_null key w = w @ [(key, CNull)]"

definition append_array :: "string \<Rightarrow> cbor list \<Rightarrow> MapWriter \<Rightarrow> MapWriter" where
  "append_array key items w = w @ [(key, CArray items)]"

definition append_map :: "string \<Rightarrow> MapWriter \<Rightarrow> MapWriter \<Rightarrow> MapWriter" where
  "append_map key submap w = w @ [(key, CMap submap)]"

section \<open>Serialization\<close>

text \<open>
  \<^verbatim>\<open>
  void OptLink::serialize(cbor::MapWriter &map, const PointerMap &ids) const {
      map.append_string("@T", serdes_edge_type());
      map.append_int("@l", ids.get(*this));
  }
  \<close>
  inherited by \<^verbatim>\<open>Link\<close>. The lookup is not guarded by \<^verbatim>\<open>empty()\<close>.
\<close>

definition OptLink_serialize ::
  "edge_class \<Rightarrow> string \<Rightarrow> addr option \<Rightarrow> MapWriter \<Rightarrow> PointerMap \<Rightarrow> error + MapWriter" where
  "OptLink_serialize cls tn val w ids =
     (let w1 = append_string ''@T'' (serdes_edge_type cls) w
      in case PointerMap_get_link tn val ids of
           Inl e \<Rightarrow> Inl e
         | Inr i \<Rightarrow> Inr (append_int ''@l'' (int i) w1))"

text \<open>
  \<^verbatim>\<open>
  void Maybe::serialize(cbor::MapWriter &map, const PointerMap &ids) const {
      map.append_string("@T", serdes_edge_type());
      if (val) { map.append_int("@i", ids.get(*this)); val->serialize(map, ids); }
      else { map.append_null("@t"); }
  }
  void Any::serialize(cbor::MapWriter &map, const PointerMap &ids) const {
      map.append_string("@T", serdes_edge_type());
      auto ar = map.append_array("@d");
      for (auto &sptr : this->vec) { auto submap = ar.append_map(); sptr.serialize(submap, ids); }
  }
  \<close>
  \<open>edge_serialize\<close> is the call on a field, resolved by the edge's class.
\<close>

text \<open>
  Modelled from the spec: \<^verbatim>\<open>serialize\<close> of a node class is generated code, not among
  the sources. By the spec's wire protocol ("the target node's own encoded fields merged
  into the same map", "one map per edge") a node appends its class name under
  \<^verbatim>\<open>@t\<close>, the key \<^verbatim>\<open>Maybe::deserialize\<close> reads, and then one nested map per edge
  field under the field's name: the two functions \<open>node_serialize\<close> and
  \<open>fields_serialize\<close>. The other four are the source's.
\<close>

function node_serialize :: "node \<Rightarrow> MapWriter \<Rightarrow> PointerMap \<Rightarrow> error + MapWriter"
  and fields_serialize :: "(string \<times> edge) list \<Rightarrow> MapWriter \<Rightarrow> PointerMap \<Rightarrow> error + MapWriter"
  and edge_serialize :: "edge \<Rightarrow> MapWriter \<Rightarrow> PointerMap \<Rightarrow> error + MapWriter"
  and Maybe_serialize ::
    "edge_class \<Rightarrow> string \<Rightarrow> node shared_ptr \<Rightarrow> MapWriter \<Rightarrow> PointerMap \<Rightarrow> error + MapWriter"
  and Any_serialize ::
    "edge_class \<Rightarrow> string \<Rightarrow> node shared_ptr list \<Rightarrow> MapWriter \<Rightarrow> PointerMap \<Rightarrow> error + MapWriter"
  and Any_serialize_loop ::
    "string \<Rightarrow> node shared_ptr list \<Rightarrow> cbor list \<Rightarrow> PointerMap \<Rightarrow> error + cbor list"
where
  "node_serialize (Node a t fs) w ids = fields_serialize fs (append_string ''@t'' t w) ids"
| "fields_serialize [] w ids = Inr w"
| "fields_serialize (f # fs) w ids =
     (case edge_serialize (snd f) [] ids of
        Inl e \<Rightarrow> Inl e
      | Inr submap \<Rightarrow> fields_serialize fs (append_map (fst f) submap w) ids)"
| "edge_serialize (Maybe_edge tn val) w ids = Maybe_serialize Maybe_class tn val w ids"
| "edge_serialize (One_edge tn val) w ids = Maybe_serialize One_class tn val w ids"
| "edge_serialize (Any_edge tn vec) w ids = Any_serialize Any_class tn vec w ids"
| "edge_serialize (Many_edge tn vec) w ids = Any_serialize Many_class tn vec w ids"
| "edge_serialize (OptLink_edge tn val) w ids = OptLink_serialize OptLink_class tn val w ids"
| "edge_serialize (Link_edge tn val) w ids = OptLink_serialize Link_class tn val w ids"
| "Maybe_serialize cls tn (Some n) w ids =
     (case PointerMap_get tn (Some n) ids of
        Inl e \<Rightarrow> Inl e
      | Inr i \<Rightarrow>
          node_serialize n (append_int ''@i'' (int i) (append_string ''@T'' (serdes_edge_type cls) w)) ids)"
| "Maybe_serialize cls tn None w ids =
     Inr (append_null ''@t'' (append_string ''@T'' (serdes_edge_type cls) w))"
| "Any_serialize cls tn vec w ids =
     (case Any_serialize_loop tn vec [] ids of
        Inl e \<Rightarrow> Inl e
      | Inr ar \<Rightarrow> Inr (append_array ''@d'' ar (append_string ''@T'' (serdes_edge_type cls) w)))"
| "Any_serialize_loop tn [] ar ids = Inr ar"
| "Any_serialize_loop tn (sptr # vec) ar ids =
     (case Maybe_serialize One_class tn sptr [] ids of
        Inl e \<Rightarrow> Inl e
      | Inr submap \<Rightarrow> Any_serialize_loop tn vec (ar @ [CMap submap]) ids)"
  by pat_completeness auto
termination
  by (relation "measure (\<lambda>x. case x of
        Inl (Inl (n, w, ids)) \<Rightarrow> 3 * size n
      | Inl (Inr (Inl (fs, w, ids))) \<Rightarrow> 3 * size_list (size_prod (\<lambda>_. 0) size) fs
      | Inl (Inr (Inr (e, w, ids))) \<Rightarrow> 3 * size e
      | Inr (Inl (cls, tn, v, w, ids)) \<Rightarrow> 3 * size_option size v + 1
      | Inr (Inr (Inl (cls, tn, vec, w, ids))) \<Rightarrow> 3 * size_list (size_option size) vec + 2
      | Inr (Inr (Inr (tn, vec, ar, ids))) \<Rightarrow> 3 * size_list (size_option size) vec + 1)") auto

text \<open>
  \<^verbatim>\<open>
  void serialize(const Maybe<T> tree, std::ostream &stream) {
      tree::cbor::Writer writer{stream};
      PointerMap ids{};
      tree.find_reachable(ids);
      tree.check_complete(ids);
      auto map = writer.start();
      tree.serialize(map, ids);
      map.close();
  }
  \<close>
  The tree is passed by value as a \<^verbatim>\<open>Maybe<T>\<close>, so the root is written with the
  tag of \<^verbatim>\<open>Maybe\<close>. The first argument is \<^verbatim>\<open>typeid(T).name()\<close>.
\<close>

definition serialize :: "string \<Rightarrow> node shared_ptr \<Rightarrow> error + cbor" where
  "serialize tn tree =
     (case Maybe_find_reachable tn tree [] of
        Inl e \<Rightarrow> Inl e
      | Inr ids \<Rightarrow>
          (case Maybe_check_complete tree ids of
             Inl e \<Rightarrow> Inl e
           | Inr u \<Rightarrow>
               (case Maybe_serialize Maybe_class tn tree [] ids of
                  Inl e \<Rightarrow> Inl e
                | Inr w \<Rightarrow> Inr (CMap w))))"


section \<open>Deserialization\<close>

text \<open>
  Modelled from the spec: the reader of tree-cbor.hpp is not among the sources. A
  \<^verbatim>\<open>MapReader\<close> is the list of entries of a map; \<^verbatim>\<open>at\<close> of a missing key and
  \<^verbatim>\<open>as_string\<close>, \<^verbatim>\<open>as_int\<close>, \<^verbatim>\<open>as_array\<close>, \<^verbatim>\<open>as_map\<close> of a value
  of another kind fail with a \<open>ReaderError\<close>.
\<close>

type_synonym MapReader = "(string \<times> cbor) list"

definition MapReader_at :: "MapReader \<Rightarrow> string \<Rightarrow> error + cbor" where
  "MapReader_at rd key = (case map_of rd key of None \<Rightarrow> Inl ReaderError | Some v \<Rightarrow> Inr v)"

fun as_string :: "cbor \<Rightarrow> error + string" where
  "as_string (CString s) = Inr s"
| "as_string v = Inl ReaderError"

fun as_int :: "cbor \<Rightarrow> error + int" where
  "as_int (CInt i) = Inr i"
| "as_int v = Inl ReaderError"

fun as_array :: "cbor \<Rightarrow> error + cbor list" where
  "as_array (CArray items) = Inr items"
| "as_array v = Inl ReaderError"

fun as_map :: "cbor \<Rightarrow> error + MapReader" where
  "as_map (CMap rd) = Inr rd"
| "as_map v = Inl ReaderError"

fun is_null :: "cbor \<Rightarrow> bool" where
  "is_null CNull = True"
| "is_null v = False"

text \<open>The conversion of the signed result of \<^verbatim>\<open>as_int()\<close> to the
  \<^verbatim>\<open>size_t identifier\<close> parameter of \<^verbatim>\<open>register_node\<close>.\<close>

definition size_t_of_int :: "int \<Rightarrow> nat" where
  "size_t_of_int i = nat (i mod 2 ^ 64)"

text \<open>
  \<^verbatim>\<open>
  class IdentifierMap {
      std::unordered_map<size_t, std::shared_ptr<void>> nodes;
      std::vector<std::pair<LinkBase&, size_t>> links;
  \<close>
  A registered node is its address. A \<^verbatim>\<open>LinkBase &\<close> refers to a link object that is
  a field of a node: the address of that node and the name of the field.
\<close>

record IdentifierMap =
  nodes :: "(nat \<times> addr) list"
  links :: "((addr \<times> string) \<times> nat) list"

definition IdentifierMap_new :: IdentifierMap where
  "IdentifierMap_new = \<lparr>nodes = [], links = []\<rparr>"

text \<open>
  Modelled from the spec: \<^verbatim>\<open>IdentifierMap::register_node\<close> is declared in the header
  and defined in tree-base.cpp, which is not among the sources. By the spec each node "is
  registered in the identifier map under the sequence number recorded for it". A lookup
  finds the first node registered under an identifier.
\<close>

definition register_node :: "nat \<Rightarrow> addr \<Rightarrow> IdentifierMap \<Rightarrow> IdentifierMap" where
  "register_node identifier p ids = ids\<lparr>nodes := nodes ids @ [(identifier, p)]\<rparr>"

text \<open>
  Modelled from the spec: \<^verbatim>\<open>IdentifierMap::register_link\<close> is declared in the header
  and defined in tree-base.cpp, which is not among the sources. By the spec each link "and
  its target id are appended to a pending list".
\<close>

definition register_link :: "addr \<times> string \<Rightarrow> nat \<Rightarrow> IdentifierMap \<Rightarrow> IdentifierMap" where
  "register_link link identifier ids = ids\<lparr>links := links ids @ [(link, identifier)]\<rparr>"

text \<open>\<^verbatim>\<open>T::deserialize(map, ids)\<close>, the static function of the node class the edge is
  instantiated with: a parameter of the edge's \<^verbatim>\<open>deserialize\<close>, as \<^verbatim>\<open>T\<close> is of
  the template.\<close>

type_synonym node_deserializer = "MapReader \<Rightarrow> IdentifierMap \<Rightarrow> error + node \<times> IdentifierMap"

text \<open>
  \<^verbatim>\<open>
  void Maybe::deserialize(const cbor::MapReader &map, IdentifierMap &ids) {
      if (map.at("@T").as_string() != serdes_edge_type()) {
          throw RuntimeError("Schema validation failed: unexpected edge type");
      }
      auto type = map.at("@t");
      if (type.is_null()) { val.reset(); }
      else {
          val = T::deserialize(map, ids);
          ids.register_node(map.at("@i").as_int(), std::static_pointer_cast<void>(val));
      }
  }
  \<close>
  \<^verbatim>\<open>One\<close> calls it from its own constructor, where \<^verbatim>\<open>serdes_edge_type()\<close> is
  that of \<^verbatim>\<open>One\<close>.
\<close>

definition Maybe_deserialize ::
  "edge_class \<Rightarrow> node_deserializer \<Rightarrow> MapReader \<Rightarrow> IdentifierMap \<Rightarrow>
   error + node shared_ptr \<times> IdentifierMap" where
  "Maybe_deserialize cls nd rd ids =
     (case MapReader_at rd ''@T'' of
        Inl e \<Rightarrow> Inl e
      | Inr t \<Rightarrow>
     (case as_string t of
        Inl e \<Rightarrow> Inl e
      | Inr s \<Rightarrow>
     if s \<noteq> serdes_edge_type cls
     then Inl (RuntimeError ''Schema validation failed: unexpected edge type'')
     else
     (case MapReader_at rd ''@t'' of
        Inl e \<Rightarrow> Inl e
      | Inr type \<Rightarrow>
     if is_null type then Inr (None, ids)
     else
     (case nd rd ids of
        Inl e \<Rightarrow> Inl e
      | Inr (n, ids') \<Rightarrow>
     (case MapReader_at rd ''@i'' of
        Inl e \<Rightarrow> Inl e
      | Inr i \<Rightarrow>
     (case as_int i of
        Inl e \<Rightarrow> Inl e
      | Inr k \<Rightarrow> Inr (Some n, register_node (size_t_of_int k) (node_addr n) ids')))))))"

text \<open>
  \<^verbatim>\<open>
  void Any::deserialize(const cbor::MapReader &map, IdentifierMap &ids) {
      if (map.at("@T").as_string() != serdes_edge_type()) {
          throw RuntimeError("Schema validation failed: unexpected edge type");
      }
      for (const auto &it : map.at("@d").as_array()) { vec.emplace_back(it.as_map(), ids); }
  }
  \<close>
  \<^verbatim>\<open>emplace_back\<close> constructs a \<^verbatim>\<open>One<T>\<close> from the element's map.
\<close>

fun Any_deserialize_loop ::
  "node_deserializer \<Rightarrow> cbor list \<Rightarrow> node shared_ptr list \<Rightarrow> IdentifierMap \<Rightarrow>
   error + node shared_ptr list \<times> IdentifierMap" where
  "Any_deserialize_loop nd [] vec ids = Inr (vec, ids)"
| "Any_deserialize_loop nd (it # its) vec ids =
     (case as_map it of
        Inl e \<Rightarrow> Inl e
      | Inr rd \<Rightarrow>
     (case Maybe_deserialize One_class nd rd ids of
        Inl e \<Rightarrow> Inl e
      | Inr (v, ids') \<Rightarrow> Any_deserialize_loop nd its (vec @ [v]) ids'))"

definition Any_deserialize ::
  "edge_class \<Rightarrow> node_deserializer \<Rightarrow> MapReader \<Rightarrow> node shared_ptr list \<Rightarrow> IdentifierMap \<Rightarrow>
   error + node shared_ptr list \<times> IdentifierMap" where
  "Any_deserialize cls nd rd vec ids =
     (case MapReader_at rd ''@T'' of
        Inl e \<Rightarrow> Inl e
      | Inr t \<Rightarrow>
     (case as_string t of
        Inl e \<Rightarrow> Inl e
      | Inr s \<Rightarrow>
     if s \<noteq> serdes_edge_type cls
     then Inl (RuntimeError ''Schema validation failed: unexpected edge type'')
     else
     (case MapReader_at rd ''@d'' of
        Inl e \<Rightarrow> Inl e
      | Inr d \<Rightarrow>
     (case as_array d of
        Inl e \<Rightarrow> Inl e
      | Inr items \<Rightarrow> Any_deserialize_loop nd items vec ids))))"

text \<open>
  \<^verbatim>\<open>
  void OptLink::deserialize(const cbor::MapReader &map, IdentifierMap &ids) {
      (void)ids;
      if (map.at("@T").as_string() != serdes_edge_type()) {
          throw RuntimeError("Schema validation failed: unexpected edge type");
      }
      val.reset();
  }
  \<close>
\<close>

definition OptLink_deserialize ::
  "edge_class \<Rightarrow> MapReader \<Rightarrow> IdentifierMap \<Rightarrow> error + addr option \<times> IdentifierMap" where
  "OptLink_deserialize cls rd ids =
     (case MapReader_at rd ''@T'' of
        Inl e \<Rightarrow> Inl e
      | Inr t \<Rightarrow>
     (case as_string t of
        Inl e \<Rightarrow> Inl e
      | Inr s \<Rightarrow>
     if s \<noteq> serdes_edge_type cls
     then Inl (RuntimeError ''Schema validation failed: unexpected edge type'')
     else Inr (None, ids)))"

text \<open>\<^verbatim>\<open>OptLink::set_void_ptr(ptr): val = std::static_pointer_cast<T>(ptr);\<close>\<close>

fun OptLink_set_void_ptr :: "addr \<Rightarrow> edge \<Rightarrow> edge" where
  "OptLink_set_void_ptr p (OptLink_edge tn val) = OptLink_edge tn (Some p)"
| "OptLink_set_void_ptr p (Link_edge tn val) = Link_edge tn (Some p)"
| "OptLink_set_void_ptr p e = e"

text \<open>The store update behind \<^verbatim>\<open>link.set_void_ptr(ptr)\<close> for a registered link:
  in the tree, the field \<open>snd link\<close> of the node at address \<open>fst link\<close> is set.\<close>

function node_store_link :: "addr \<times> string \<Rightarrow> addr \<Rightarrow> node \<Rightarrow> node"
  and fields_store_link :: "addr \<times> string \<Rightarrow> addr \<Rightarrow> addr \<Rightarrow> (string \<times> edge) list \<Rightarrow> (string \<times> edge) list"
  and edge_store_link :: "addr \<times> string \<Rightarrow> addr \<Rightarrow> edge \<Rightarrow> edge"
  and ptr_store_link :: "addr \<times> string \<Rightarrow> addr \<Rightarrow> node shared_ptr \<Rightarrow> node shared_ptr"
  and vec_store_link :: "addr \<times> string \<Rightarrow> addr \<Rightarrow> node shared_ptr list \<Rightarrow> node shared_ptr list"
where
  "node_store_link link p (Node a t fs) = Node a t (fields_store_link link p a fs)"
| "fields_store_link link p a [] = []"
| "fields_store_link link p a (f # fs) =
     (fst f, if link = (a, fst f) then OptLink_set_void_ptr p (snd f)
             else edge_store_link link p (snd f))
     # fields_store_link link p a fs"
| "edge_store_link link p (Maybe_edge tn val) = Maybe_edge tn (ptr_store_link link p val)"
| "edge_store_link link p (One_edge tn val) = One_edge tn (ptr_store_link link p val)"
| "edge_store_link link p (Any_edge tn vec) = Any_edge tn (vec_store_link link p vec)"
| "edge_store_link link p (Many_edge tn vec) = Many_edge tn (vec_store_link link p vec)"
| "edge_store_link link p (OptLink_edge tn val) = OptLink_edge tn val"
| "edge_store_link link p (Link_edge tn val) = Link_edge tn val"
| "ptr_store_link link p None = None"
| "ptr_store_link link p (Some n) = Some (node_store_link link p n)"
| "vec_store_link link p [] = []"
| "vec_store_link link p (sptr # vec) = ptr_store_link link p sptr # vec_store_link link p vec"
  by pat_completeness auto
termination
  by (relation "measure (\<lambda>x. case x of
        Inl (Inl (l, p, n)) \<Rightarrow> 2 * size n
      | Inl (Inr (l, p, a, fs)) \<Rightarrow> 2 * size_list (size_prod (\<lambda>_. 0) size) fs
      | Inr (Inl (l, p, e)) \<Rightarrow> 2 * size e
      | Inr (Inr (Inl (l, p, v))) \<Rightarrow> 2 * size_option size v + 1
      | Inr (Inr (Inr (l, p, vec))) \<Rightarrow> 2 * size_list (size_option size) vec + 1)") auto

text \<open>
  Modelled from the spec: \<^verbatim>\<open>IdentifierMap::restore_links\<close> is declared in the header
  and defined in tree-base.cpp, which is not among the sources. By the spec the resolution
  pass "iterates the pending list, looks up each target id in the identifier map, and
  injects the resolved node reference into the corresponding edge. A missing id at this
  stage is a structural error". The text of the message is not specified.
\<close>

fun restore_links_loop ::
  "(nat \<times> addr) list \<Rightarrow> ((addr \<times> string) \<times> nat) list \<Rightarrow> node shared_ptr \<Rightarrow> error + node shared_ptr" where
  "restore_links_loop ns [] tree = Inr tree"
| "restore_links_loop ns (it # its) tree =
     (case map_of ns (snd it) of
        None \<Rightarrow> Inl (NotWellFormed ''Link to unknown node identifier'')
      | Some p \<Rightarrow> restore_links_loop ns its (ptr_store_link (fst it) p tree))"

text \<open>
  Modelled from the spec: \<^verbatim>\<open>void restore_links() const\<close>, the loop above over the
  pending links of the map. The links are objects inside the tree, so the tree is passed
  and returned.
\<close>

definition restore_links :: "IdentifierMap \<Rightarrow> node shared_ptr \<Rightarrow> error + node shared_ptr" where
  "restore_links ids tree = restore_links_loop (nodes ids) (links ids) tree"

text \<open>
  \<^verbatim>\<open>
  Maybe<T> deserialize(const std::string &cbor) {
      cbor::Reader reader{cbor};
      IdentifierMap ids{};
      Maybe<T> tree{reader.as_map(), ids};
      ids.restore_links();
      tree.check_well_formed();
      return tree;
  }
  \<close>
  The arguments are \<^verbatim>\<open>T::deserialize\<close>, \<^verbatim>\<open>typeid(T).name()\<close> and the document
  the reader decodes from the string; \<^verbatim>\<open>reader.as_map()\<close> fails when the document is
  not a map. Every exception propagates: none of the calls is inside a \<^verbatim>\<open>try\<close>.
\<close>

definition deserialize :: "node_deserializer \<Rightarrow> string \<Rightarrow> cbor \<Rightarrow> error + node shared_ptr" where
  "deserialize nd tn doc =
     (case as_map doc of
        Inl e \<Rightarrow> Inl e
      | Inr rd \<Rightarrow>
     (case Maybe_deserialize Maybe_class nd rd IdentifierMap_new of
        Inl e \<Rightarrow> Inl e
      | Inr (tree, ids) \<Rightarrow>
     (case restore_links ids tree of
        Inl e \<Rightarrow> Inl e
      | Inr tree' \<Rightarrow>
     (case check_well_formed (Maybe_edge tn tree') of
        Inl e \<Rightarrow> Inl e
      | Inr u \<Rightarrow> Inr tree'))))"

text \<open>
  Modelled from the spec: a node class as the generator emits it is not among the sources.
  \<open>Leaf_deserialize\<close> is \<^verbatim>\<open>T::deserialize\<close> of a sample class \<^verbatim>\<open>Leaf\<close> with one
  field, \<^verbatim>\<open>Link<Leaf> ref\<close>: it checks \<^verbatim>\<open>@t\<close>, constructs the link from the
  nested map, allocates the node (at the first address no registered node has) and queues
  the link with its \<^verbatim>\<open>@l\<close> when there is one. It instantiates the parameter in the
  examples.
\<close>

definition Leaf_deserialize :: node_deserializer where
  "Leaf_deserialize rd ids =
     (case MapReader_at rd ''@t'' of
        Inl e \<Rightarrow> Inl e
      | Inr t \<Rightarrow>
     (case as_string t of
        Inl e \<Rightarrow> Inl e
      | Inr s \<Rightarrow>
     if s \<noteq> ''Leaf'' then Inl (RuntimeError ''Schema validation failed: unexpected node type'')
     else
     (case MapReader_at rd ''ref'' of
        Inl e \<Rightarrow> Inl e
      | Inr r \<Rightarrow>
     (case as_map r of
        Inl e \<Rightarrow> Inl e
      | Inr rm \<Rightarrow>
     (case OptLink_deserialize Link_class rm ids of
        Inl e \<Rightarrow> Inl e
      | Inr (l, ids1) \<Rightarrow>
     (let a = length (nodes ids1);
          n = Node a ''Leaf'' [(''ref'', Link_edge ''Leaf'' l)]
      in case map_of rm ''@l'' of
           None \<Rightarrow> Inr (n, ids1)
         | Some i \<Rightarrow>
             (case as_int i of
                Inl e \<Rightarrow> Inl e
              | Inr k \<Rightarrow> Inr (n, register_link (a, ''ref'') (size_t_of_int k) ids1))))))))"

section \<open>The spec's words for Phase 1\<close>

text \<open>
  The spec: "depth-first traversal following only owning edges. For each visited node,
  register its identity in the identity map with the next sequence number (DFS
  pre-order)". \<open>edge_preorder e\<close> lists the identities of the nodes owned below the
  edge \<open>e\<close> in that order: a node before the nodes below it, fields and elements from
  first to last, nothing for a link.
\<close>

function node_preorder :: "node \<Rightarrow> addr list"
  and fields_preorder :: "(string \<times> edge) list \<Rightarrow> addr list"
  and edge_preorder :: "edge \<Rightarrow> addr list"
  and Maybe_preorder :: "node shared_ptr \<Rightarrow> addr list"
  and Any_preorder :: "node shared_ptr list \<Rightarrow> addr list"
where
  "node_preorder (Node a t fs) = fields_preorder fs"
| "fields_preorder [] = []"
| "fields_preorder (f # fs) = edge_preorder (snd f) @ fields_preorder fs"
| "edge_preorder (Maybe_edge tn val) = Maybe_preorder val"
| "edge_preorder (One_edge tn val) = Maybe_preorder val"
| "edge_preorder (Any_edge tn vec) = Any_preorder vec"
| "edge_preorder (Many_edge tn vec) = Any_preorder vec"
| "edge_preorder (OptLink_edge tn val) = []"
| "edge_preorder (Link_edge tn val) = []"
| "Maybe_preorder None = []"
| "Maybe_preorder (Some n) = node_addr n # node_preorder n"
| "Any_preorder [] = []"
| "Any_preorder (sptr # vec) = Maybe_preorder sptr @ Any_preorder vec"
  by pat_completeness auto
termination
  by (relation "measure (\<lambda>x. case x of
        Inl (Inl n) \<Rightarrow> 2 * size n
      | Inl (Inr fs) \<Rightarrow> 2 * size_list (size_prod (\<lambda>_. 0) size) fs
      | Inr (Inl e) \<Rightarrow> 2 * size e
      | Inr (Inr (Inl v)) \<Rightarrow> 2 * size_option size v + 1
      | Inr (Inr (Inr vec)) \<Rightarrow> 2 * size_list (size_option size) vec + 1)") auto

text \<open>Registering a list of identities, each with the next sequence number.\<close>

fun register_all :: "addr list \<Rightarrow> PointerMap \<Rightarrow> PointerMap" where
  "register_all [] m = m"
| "register_all (a # as) m = register_all as (m @ [(Some a, length m)])"

text \<open>No identity of the list is registered yet, and none comes twice.\<close>

definition unregistered :: "addr list \<Rightarrow> PointerMap \<Rightarrow> bool" where
  "unregistered as m = (distinct as \<and> list_all (\<lambda>a. map_of m (Some a) = None) as)"

text \<open>The outcome \<open>r\<close> of a traversal from the map \<open>m\<close> is what the spec asks for the
  identities \<open>as\<close>: all registered in order, or a \<^verbatim>\<open>NotWellFormed\<close> when one of
  them was registered already.\<close>

definition registers :: "addr list \<Rightarrow> PointerMap \<Rightarrow> error + PointerMap \<Rightarrow> bool" where
  "registers as m r =
     (case r of
        Inr m' \<Rightarrow> unregistered as m \<and> m' = register_all as m
      | Inl e \<Rightarrow> \<not> unregistered as m \<and> is_NotWellFormed e)"

section \<open>The spec's words for mandatory edges\<close>

text \<open>
  \<open>edge_has_empty_mandatory e\<close>: the edge \<open>e\<close>, or an edge of a node owned below it, is
  an empty \<^verbatim>\<open>One\<close> or an empty \<^verbatim>\<open>Many\<close>. The elements of a sequence are
  \<^verbatim>\<open>One\<close> edges themselves.
\<close>

function node_has_empty_mandatory :: "node \<Rightarrow> bool"
  and fields_has_empty_mandatory :: "(string \<times> edge) list \<Rightarrow> bool"
  and edge_has_empty_mandatory :: "edge \<Rightarrow> bool"
  and ptr_has_empty_mandatory :: "node shared_ptr \<Rightarrow> bool"
  and vec_has_empty_mandatory :: "node shared_ptr list \<Rightarrow> bool"
where
  "node_has_empty_mandatory (Node a t fs) = fields_has_empty_mandatory fs"
| "fields_has_empty_mandatory [] = False"
| "fields_has_empty_mandatory (f # fs) =
     (edge_has_empty_mandatory (snd f) \<or> fields_has_empty_mandatory fs)"
| "edge_has_empty_mandatory (Maybe_edge tn val) = ptr_has_empty_mandatory val"
| "edge_has_empty_mandatory (One_edge tn val) = (Maybe_empty val \<or> ptr_has_empty_mandatory val)"
| "edge_has_empty_mandatory (Any_edge tn vec) = vec_has_empty_mandatory vec"
| "edge_has_empty_mandatory (Many_edge tn vec) = (Any_empty vec \<or> vec_has_empty_mandatory vec)"
| "edge_has_empty_mandatory (OptLink_edge tn val) = False"
| "edge_has_empty_mandatory (Link_edge tn val) = False"
| "ptr_has_empty_mandatory None = False"
| "ptr_has_empty_mandatory (Some n) = node_has_empty_mandatory n"
| "vec_has_empty_mandatory [] = False"
| "vec_has_empty_mandatory (sptr # vec) =
     (Maybe_empty sptr \<or> ptr_has_empty_mandatory sptr \<or> vec_has_empty_mandatory vec)"
  by pat_completeness auto
termination
  by (relation "measure (\<lambda>x. case x of
        Inl (Inl n) \<Rightarrow> 2 * size n
      | Inl (Inr fs) \<Rightarrow> 2 * size_list (size_prod (\<lambda>_. 0) size) fs
      | Inr (Inl e) \<Rightarrow> 2 * size e
      | Inr (Inr (Inl v)) \<Rightarrow> 2 * size_option size v + 1
      | Inr (Inr (Inr vec)) \<Rightarrow> 2 * size_list (size_option size) vec + 1)") auto

text \<open>The outcome \<open>r\<close> of a check is a \<^verbatim>\<open>NotWellFormed\<close>, or it passes and
  nothing was \<open>bad\<close>.\<close>

definition rejects :: "bool \<Rightarrow> error + unit \<Rightarrow> bool" where
  "rejects bad r = (case r of Inl e \<Rightarrow> is_NotWellFormed e | Inr u \<Rightarrow> \<not> bad)"

section \<open>Example trees\<close>

text \<open>
  The spec's end-to-end scenario: a root \<open>R\<close> (at address 100) owning a one-or-more
  sequence of \<open>A\<close> (at 101) and \<open>B\<close> (at 102), each holding an optional link back to
  \<open>R\<close>. The spec's negative scenario: two optional-one edges of one root that both hold
  the node \<open>X\<close> (at 200).
\<close>

definition scenario_tree :: "node shared_ptr" where
  "scenario_tree =
     Some (Node 100 ''R''
       [(''kids'', Many_edge ''K''
          [Some (Node 101 ''K'' [(''up'', OptLink_edge ''R'' (Some 100))]),
           Some (Node 102 ''K'' [(''up'', OptLink_edge ''R'' (Some 100))])])])"

definition aliased_tree :: "node shared_ptr" where
  "aliased_tree =
     Some (Node 100 ''R''
       [(''left'', Maybe_edge ''X'' (Some (Node 200 ''X'' []))),
        (''right'', Maybe_edge ''X'' (Some (Node 200 ''X'' [])))])"

text \<open>A root whose only field is an optional link that is not set.\<close>

definition optlink_tree :: "node shared_ptr" where
  "optlink_tree = Some (Node 100 ''R'' [(''ref'', OptLink_edge ''R'' None)])"

text \<open>The document of a root \<^verbatim>\<open>Leaf\<close> with identifier 0, given the tag of the root edge
  and the entries of the link after its tag.\<close>

definition leaf_doc :: "string \<Rightarrow> (string \<times> cbor) list \<Rightarrow> cbor" where
  "leaf_doc tag link =
     CMap [(''@T'', CString tag), (''@i'', CInt 0), (''@t'', CString ''Leaf''),
           (''ref'', CMap ((''@T'', CString ''$'') # link))]"

section \<open>Properties of the sequence edges\<close>

lemma vector_emplace_take_drop:
  "n \<le> length xs \<Longrightarrow> vector_emplace n x xs = take n xs @ x # drop n xs"
proof (induction n x xs rule: vector_emplace.induct)
  case (1 x xs)
  show ?case by simp
next
  case (2 n x)
  then show ?case by simp
next
  case (3 n x y ys)
  then show ?case by simp
qed

lemma vector_erase_take_drop:
  "n < length xs \<Longrightarrow> vector_erase n xs = take n xs @ drop (Suc n) xs"
proof (induction n xs rule: vector_erase.induct)
  case (1 n)
  then show ?case by simp
next
  case (2 y ys)
  show ?case by simp
next
  case (3 n y ys)
  then show ?case by simp
qed

lemma vector_erase_last:
  "xs \<noteq> [] \<Longrightarrow> vector_erase (length xs - 1) xs = butlast xs"
proof (induction xs)
  case Nil
  then show ?case by simp
next
  case (Cons y ys)
  show ?case
  proof (cases ys)
    case Nil
    then show ?thesis by simp
  next
    case (Cons z zs)
    with Cons.IH have "vector_erase (length ys - 1) ys = butlast ys" by simp
    with Cons show ?thesis by simp
  qed
qed

lemma Any_add_nonempty_invariant:
  "None \<notin> set vec \<Longrightarrow> None \<notin> set (Any_add ob pos vec)"
proof (cases "Maybe_empty ob")
  case True
  assume "None \<notin> set vec"
  with True show ?thesis by (simp add: Any_add_def)
next
  case False
  assume inv: "None \<notin> set vec"
  from False have ob: "ob \<noteq> None" by (simp add: Maybe_empty_def)
  show ?thesis
  proof (cases "pos < 0 \<or> Any_size vec \<le> nat pos")
    case True
    with False inv ob show ?thesis by (auto simp: Any_add_def)
  next
    case False
    then have le: "nat pos \<le> length vec" by (simp add: Any_size_def)
    have "set (take (nat pos) vec @ ob # drop (nat pos) vec) = insert ob (set vec)"
      using set_append [of "take (nat pos) vec" "drop (nat pos) vec"] by auto
    with False \<open>\<not> Maybe_empty ob\<close> inv ob le show ?thesis
      by (auto simp: Any_add_def vector_emplace_take_drop)
  qed
qed

lemma Any_add_all_nonempty_invariant:
  "None \<notin> set vec \<Longrightarrow> None \<notin> set (Any_add_all calls vec)"
proof (induction calls arbitrary: vec)
  case Nil
  then show ?case by simp
next
  case (Cons c calls)
  obtain ob pos where c: "c = (ob, pos)" by (cases c)
  from Cons.prems have "None \<notin> set (Any_add ob pos vec)"
    by (rule Any_add_nonempty_invariant)
  then have "None \<notin> set (Any_add_all calls (Any_add ob pos vec))"
    by (rule Cons.IH)
  with c show ?case by simp
qed

text \<open>
  C7. For every sequence edge \<open>s\<close> and index \<open>i\<close>: when \<open>i\<close> is at or beyond the size,
  \<^verbatim>\<open>at(i)\<close> raises a bounds error (a \<^verbatim>\<open>std::out_of_range\<close>); when \<open>s\<close> is empty,
  \<^verbatim>\<open>front()\<close> and \<^verbatim>\<open>back()\<close> return an empty \<^verbatim>\<open>Maybe\<close>. Neither
  \<^verbatim>\<open>front\<close> nor \<^verbatim>\<open>back\<close> has an error result at all.
\<close>

theorem C7_bounds_behaviour:
  "(Any_size s \<le> i \<longrightarrow> (\<exists>e. Any_at i s = Inl e \<and> is_out_of_range e)) \<and>
   (Any_empty s \<longrightarrow>
      Any_front s = Maybe_new \<and> Maybe_empty (Any_front s) \<and>
      Any_back s = Maybe_new \<and> Maybe_empty (Any_back s))"
  by (simp add: Any_size_def Any_at_def Any_empty_def Any_front_def Any_back_def
      Maybe_new_def Maybe_empty_def)

theorem C7_bounds_behaviour_witness:
  "(\<exists>e. Any_at 2 [Some (10::nat), Some 20] = Inl e \<and> is_out_of_range e) \<and>
   Any_size [Some (10::nat), Some 20] \<le> 2 \<and>
   Any_empty ([] :: nat shared_ptr list) \<and>
   Maybe_empty (Any_front ([] :: nat shared_ptr list)) \<and>
   Maybe_empty (Any_back ([] :: nat shared_ptr list))"
  using C7_bounds_behaviour [of "[Some (10::nat), Some 20]" 2]
    C7_bounds_behaviour [of "[] :: nat shared_ptr list" 0]
  by (simp add: Any_size_def Any_empty_def Maybe_new_def Maybe_empty_def)

text \<open>
  C8. For every sequence edge \<open>s\<close> and non-empty reference \<open>v\<close>: \<^verbatim>\<open>add(v, pos)\<close>
  with a negative position, or one at or beyond the size, appends \<open>v\<close>; with
  \<open>0 \<le> pos < size\<close> the result is one longer, holds \<open>v\<close> at index \<open>pos\<close>, keeps every
  element before \<open>pos\<close> at its index and moves every element from \<open>pos\<close> on up by one.
\<close>

theorem C8_add_position:
  "\<not> Maybe_empty v \<Longrightarrow>
   ((pos < 0 \<or> int (Any_size s) \<le> pos) \<longrightarrow> Any_add v pos s = s @ [v]) \<and>
   ((0 \<le> pos \<and> pos < int (Any_size s)) \<longrightarrow>
      Any_size (Any_add v pos s) = Suc (Any_size s) \<and>
      Any_add v pos s ! nat pos = v \<and>
      (\<forall>i. i < nat pos \<longrightarrow> Any_add v pos s ! i = s ! i) \<and>
      (\<forall>i. nat pos \<le> i \<and> i < Any_size s \<longrightarrow> Any_add v pos s ! Suc i = s ! i) \<and>
      Any_add v pos s = take (nat pos) s @ v # drop (nat pos) s)"
proof -
  assume v: "\<not> Maybe_empty v"
  have append: "Any_add v pos s = s @ [v]" if "pos < 0 \<or> int (Any_size s) \<le> pos"
  proof -
    from that have "pos < 0 \<or> Any_size s \<le> nat pos" by auto
    with v show ?thesis by (simp add: Any_add_def)
  qed
  have insert: "Any_add v pos s = take (nat pos) s @ v # drop (nat pos) s"
    if "0 \<le> pos \<and> pos < int (Any_size s)"
  proof -
    from that have lt: "nat pos < length s" by (simp add: Any_size_def nat_less_iff)
    then have "\<not> (pos < 0 \<or> Any_size s \<le> nat pos)" using that by (simp add: Any_size_def)
    with v have "Any_add v pos s = vector_emplace (nat pos) v s" by (simp add: Any_add_def)
    with lt show ?thesis by (simp add: vector_emplace_take_drop)
  qed
  have shape: "Any_size (Any_add v pos s) = Suc (Any_size s) \<and>
      Any_add v pos s ! nat pos = v \<and>
      (\<forall>i. i < nat pos \<longrightarrow> Any_add v pos s ! i = s ! i) \<and>
      (\<forall>i. nat pos \<le> i \<and> i < Any_size s \<longrightarrow> Any_add v pos s ! Suc i = s ! i)"
    if h: "0 \<le> pos \<and> pos < int (Any_size s)"
  proof -
    from h have lt: "nat pos < length s" by (simp add: Any_size_def nat_less_iff)
    note eq = insert [OF h]
    have len: "length (take (nat pos) s) = nat pos" using lt by simp
    have a: "Any_size (Any_add v pos s) = Suc (Any_size s)"
      using lt by (simp add: eq Any_size_def)
    have b: "Any_add v pos s ! nat pos = v"
      using len by (simp add: eq nth_append)
    have c: "Any_add v pos s ! i = s ! i" if "i < nat pos" for i
      using that lt by (simp add: eq nth_append)
    have d: "Any_add v pos s ! Suc i = s ! i" if "nat pos \<le> i \<and> i < Any_size s" for i
    proof -
      from that have "Suc i - nat pos = Suc (i - nat pos)" by arith
      with that lt show ?thesis
        by (simp add: eq nth_append Any_size_def)
    qed
    from a b c d show ?thesis by blast
  qed
  from append insert shape show ?thesis by blast
qed

theorem C8_add_position_witness:
  "\<not> Maybe_empty (Some (7::nat)) \<and>
   Any_add (Some (7::nat)) (-1) [Some 1, Some 2, Some 3] = [Some 1, Some 2, Some 3, Some 7] \<and>
   Any_add (Some (7::nat)) 5 [Some 1, Some 2, Some 3] = [Some 1, Some 2, Some 3, Some 7] \<and>
   Any_add (Some (7::nat)) 1 [Some 1, Some 2, Some 3] = [Some 1, Some 7, Some 2, Some 3]"
  using C8_add_position [of "Some (7::nat)" "-1" "[Some 1, Some 2, Some 3]"]
    C8_add_position [of "Some (7::nat)" 5 "[Some 1, Some 2, Some 3]"]
    C8_add_position [of "Some (7::nat)" 1 "[Some 1, Some 2, Some 3]"]
  by (simp add: Maybe_empty_def Any_size_def)

text \<open>
  C9. \<^verbatim>\<open>add\<close> with an empty \<^verbatim>\<open>Maybe\<close> leaves the sequence as it is (contents,
  order and size). Hence \<^verbatim>\<open>add\<close> keeps "no element is an empty reference": it holds
  after any series of \<^verbatim>\<open>add\<close> calls on a sequence for which it held before, and so
  after any series of \<^verbatim>\<open>add\<close> calls on a newly constructed sequence.
\<close>

theorem C9_add_empty_noop:
  "(Maybe_empty ob \<longrightarrow> Any_add ob pos vec = vec \<and> Any_size (Any_add ob pos vec) = Any_size vec) \<and>
   ((\<forall>x \<in> set vec. \<not> Maybe_empty x) \<longrightarrow> (\<forall>x \<in> set (Any_add_all calls vec). \<not> Maybe_empty x)) \<and>
   (\<forall>x \<in> set (Any_add_all calls Any_new). \<not> Maybe_empty x)"
proof -
  have noop: "Any_add ob pos vec = vec" if "Maybe_empty ob"
    using that by (simp add: Any_add_def)
  have inv: "\<forall>x \<in> set (Any_add_all calls w). \<not> Maybe_empty x"
    if "\<forall>x \<in> set w. \<not> Maybe_empty x" for w :: "'a shared_ptr list"
  proof -
    from that have "None \<notin> set w" by (auto simp: Maybe_empty_def)
    then have none: "None \<notin> set (Any_add_all calls w)" by (rule Any_add_all_nonempty_invariant)
    show ?thesis
    proof
      fix x
      assume "x \<in> set (Any_add_all calls w)"
      with none have "x \<noteq> None" by metis
      then show "\<not> Maybe_empty x" by (simp add: Maybe_empty_def)
    qed
  qed
  have fresh: "\<forall>x \<in> set (Any_add_all calls (Any_new :: 'a shared_ptr list)). \<not> Maybe_empty x"
    by (rule inv) (simp add: Any_new_def)
  from noop inv fresh show ?thesis by simp
qed

theorem C9_add_empty_noop_witness:
  "Maybe_empty (None :: nat shared_ptr) \<and>
   Any_add None 0 [Some (1::nat), Some 2] = [Some 1, Some 2] \<and>
   \<not> Maybe_empty (Some (1::nat)) \<and> \<not> Maybe_empty (Some (2::nat)) \<and>
   None \<notin> set (Any_add_all [(None, 0), (Some 3, 1), (None, -1)] [Some (1::nat), Some 2]) \<and>
   None \<notin> set (Any_add_all [(None, 0), (Some (3::nat), 1), (None, -1)] Any_new)"
  using C9_add_empty_noop [of "None :: nat shared_ptr" 0 "[Some (1::nat), Some 2]"
      "[(None, 0), (Some 3, 1), (None, -1)]"]
  by (auto simp: Maybe_empty_def)

text \<open>
  C10. \<^verbatim>\<open>remove\<close> on an empty sequence changes nothing (and has no error result). On a
  non-empty sequence, a negative position, or one at or beyond the size, removes the last
  element; a position \<open>0 \<le> pos < size\<close> removes the element at that index, keeping the
  others in order.
\<close>

theorem C10_remove_position:
  "(Any_empty s \<longrightarrow> Any_remove pos s = s) \<and>
   (\<not> Any_empty s \<and> (pos < 0 \<or> int (Any_size s) \<le> pos) \<longrightarrow> Any_remove pos s = butlast s) \<and>
   (0 \<le> pos \<and> pos < int (Any_size s) \<longrightarrow>
      Any_remove pos s = take (nat pos) s @ drop (Suc (nat pos)) s \<and>
      Any_size (Any_remove pos s) = Any_size s - 1 \<and>
      (\<forall>i. i < nat pos \<longrightarrow> Any_remove pos s ! i = s ! i) \<and>
      (\<forall>i. nat pos \<le> i \<and> Suc i < Any_size s \<longrightarrow> Any_remove pos s ! i = s ! Suc i))"
proof -
  have empty: "Any_remove pos s = s" if "Any_empty s"
    using that by (simp add: Any_remove_def Any_empty_def Any_size_def)
  have at_end: "Any_remove pos s = butlast s"
    if h: "\<not> Any_empty s \<and> (pos < 0 \<or> int (Any_size s) \<le> pos)"
  proof -
    from h have ne: "s \<noteq> []" by (simp add: Any_empty_def)
    from h have "pos < 0 \<or> Any_size s \<le> nat pos" by auto
    with ne have "Any_remove pos s = vector_erase (length s - 1) s"
      by (simp add: Any_remove_def Any_size_def)
    with vector_erase_last [OF ne] show ?thesis by simp
  qed
  have inner: "Any_remove pos s = take (nat pos) s @ drop (Suc (nat pos)) s"
    if h: "0 \<le> pos \<and> pos < int (Any_size s)"
  proof -
    from h have lt: "nat pos < length s" by (simp add: Any_size_def nat_less_iff)
    then have "\<not> (pos < 0 \<or> Any_size s \<le> nat pos)" using h by (simp add: Any_size_def)
    with lt have "Any_remove pos s = vector_erase (nat pos) s"
      by (auto simp: Any_remove_def Any_size_def)
    with lt show ?thesis by (simp add: vector_erase_take_drop)
  qed
  have shape: "Any_size (Any_remove pos s) = Any_size s - 1 \<and>
      (\<forall>i. i < nat pos \<longrightarrow> Any_remove pos s ! i = s ! i) \<and>
      (\<forall>i. nat pos \<le> i \<and> Suc i < Any_size s \<longrightarrow> Any_remove pos s ! i = s ! Suc i)"
    if h: "0 \<le> pos \<and> pos < int (Any_size s)"
  proof -
    from h have lt: "nat pos < length s" by (simp add: Any_size_def nat_less_iff)
    note eq = inner [OF h]
    have a: "Any_size (Any_remove pos s) = Any_size s - 1"
      using lt by (simp add: eq Any_size_def)
    have b: "Any_remove pos s ! i = s ! i" if "i < nat pos" for i
      using that lt by (simp add: eq nth_append)
    have c: "Any_remove pos s ! i = s ! Suc i" if "nat pos \<le> i \<and> Suc i < Any_size s" for i
      using that lt by (simp add: eq nth_append Any_size_def)
    from a b c show ?thesis by blast
  qed
  from empty at_end inner shape show ?thesis by blast
qed

theorem C10_remove_position_witness:
  "Any_empty ([] :: nat shared_ptr list) \<and>
   Any_remove 3 ([] :: nat shared_ptr list) = [] \<and>
   \<not> Any_empty [Some (1::nat), Some 2, Some 3] \<and>
   Any_remove (-1) [Some (1::nat), Some 2, Some 3] = [Some 1, Some 2] \<and>
   Any_remove 3 [Some (1::nat), Some 2, Some 3] = [Some 1, Some 2] \<and>
   Any_remove 1 [Some (1::nat), Some 2, Some 3] = [Some 1, Some 3]"
  using C10_remove_position [of "[] :: nat shared_ptr list" 3]
    C10_remove_position [of "[Some (1::nat), Some 2, Some 3]" "-1"]
    C10_remove_position [of "[Some (1::nat), Some 2, Some 3]" 3]
    C10_remove_position [of "[Some (1::nat), Some 2, Some 3]" 1]
  by (simp add: Any_empty_def Any_size_def)

section \<open>Properties of the traversals\<close>

lemma register_all_append: "register_all (xs @ ys) m = register_all ys (register_all xs m)"
  by (induction xs arbitrary: m) simp_all

lemma register_all_zip:
  "register_all xs m = m @ zip (map Some xs) [length m ..< length m + length xs]"
proof (induction xs arbitrary: m)
  case Nil
  show ?case by simp
next
  case (Cons a as)
  have "[length m ..< length m + length (a # as)] = length m # [Suc (length m) ..< Suc (length m) + length as]"
    by (simp add: upt_rec)
  with Cons show ?case by simp
qed

lemma keys_register_all: "fst ` set (register_all xs m) = fst ` set m \<union> Some ` set xs"
  by (induction xs arbitrary: m) auto

lemma map_of_register_all:
  "map_of (register_all xs m) (Some a) = None \<longleftrightarrow> map_of m (Some a) = None \<and> a \<notin> set xs"
  by (auto simp: map_of_eq_None_iff keys_register_all)

lemma unregistered_append:
  "unregistered (xs @ ys) m \<longleftrightarrow> unregistered xs m \<and> unregistered ys (register_all xs m)"
  by (auto simp: unregistered_def list_all_iff map_of_register_all)

lemma registers_nil: "registers [] m (Inr m)"
  by (simp add: registers_def unregistered_def)

lemma registers_seq:
  assumes "registers xs m r"
    and "\<And>m'. r = Inr m' \<Longrightarrow> registers ys m' (f m')"
  shows "registers (xs @ ys) m (case r of Inl e \<Rightarrow> Inl e | Inr m' \<Rightarrow> f m')"
proof (cases r)
  case (Inl e)
  with assms(1) show ?thesis by (simp add: registers_def unregistered_append)
next
  case (Inr m')
  with assms(1) have xs: "unregistered xs m" and m': "m' = register_all xs m"
    by (simp_all add: registers_def)
  from assms(2) [OF Inr] have "registers ys m' (f m')" .
  with Inr xs m' show ?thesis
    by (cases "f m'") (simp_all add: registers_def unregistered_append register_all_append)
qed

lemma PointerMap_add_Some:
  "PointerMap_add tn (Some n) m =
     (if map_of m (Some (node_addr n)) = None
      then Inr (length m, m @ [(Some (node_addr n), length m)])
      else Inl (NotWellFormed (''Duplicate node of type '' @ tn @ '' found in tree'')))"
  by (auto simp: PointerMap_add_def add_raw_def split: option.splits)

lemma find_reachable_registers:
  "registers (node_preorder n) m (node_find_reachable n m)"
  "registers (fields_preorder fs) m (fields_find_reachable fs m)"
  "registers (edge_preorder e) m (find_reachable e m)"
  "registers (Maybe_preorder v) m (Maybe_find_reachable tn v m)"
  "registers (Any_preorder vec) m (Any_find_reachable tn' vec m)"
proof (induction n m and fs m and e m and tn v m and tn' vec m
    rule: node_find_reachable_fields_find_reachable_find_reachable_Maybe_find_reachable_Any_find_reachable.induct)
  case (1 a t fs m)
  then show ?case by simp
next
  case (2 m)
  show ?case by (simp add: registers_nil)
next
  case (3 f fs m)
  from registers_seq [of "edge_preorder (snd f)" m "find_reachable (snd f) m"
      "fields_preorder fs" "fields_find_reachable fs", OF "3.IH"(1) "3.IH"(2)]
  show ?case by simp
next
  case (4 tn val m)
  then show ?case by simp
next
  case (5 tn val m)
  then show ?case by simp
next
  case (6 tn vec m)
  then show ?case by simp
next
  case (7 tn vec m)
  then show ?case by simp
next
  case (8 tn val m)
  show ?case by (simp add: OptLink_find_reachable_def registers_nil)
next
  case (9 tn val m)
  show ?case by (simp add: OptLink_find_reachable_def registers_nil)
next
  case (10 tn m)
  show ?case by (simp add: registers_nil)
next
  case (11 tn n m)
  show ?case
  proof (cases "map_of m (Some (node_addr n)) = None")
    case True
    let ?m' = "m @ [(Some (node_addr n), length m)]"
    from True have add: "PointerMap_add tn (Some n) m = Inr (length m, ?m')"
      by (simp add: PointerMap_add_Some)
    from "11.IH" [OF add] have ih: "registers (node_preorder n) ?m' (node_find_reachable n ?m')"
      by simp
    have one: "registers [node_addr n] m (Inr ?m')"
      using True by (simp add: registers_def unregistered_def)
    from registers_seq [of "[node_addr n]" m "Inr ?m'" "node_preorder n" "node_find_reachable n"] one ih
    show ?thesis by (simp add: add)
  next
    case False
    then have "PointerMap_add tn (Some n) m =
        Inl (NotWellFormed (''Duplicate node of type '' @ tn @ '' found in tree''))"
      by (simp add: PointerMap_add_Some)
    moreover from False have "\<not> unregistered (node_addr n # node_preorder n) m"
      by (simp add: unregistered_def)
    ultimately show ?thesis by (simp add: registers_def)
  qed
next
  case (12 tn m)
  show ?case by (simp add: registers_nil)
next
  case (13 tn sptr vec m)
  from registers_seq [of "Maybe_preorder sptr" m "Maybe_find_reachable tn sptr m"
      "Any_preorder vec" "Any_find_reachable tn vec", OF "13.IH"(1) "13.IH"(2)]
  show ?case by simp
qed

lemma rejects_seq:
  assumes "rejects b1 r1"
    and "\<And>u. r1 = Inr u \<Longrightarrow> rejects b2 r2"
  shows "rejects (b1 \<or> b2) (case r1 of Inl e \<Rightarrow> Inl e | Inr u \<Rightarrow> r2)"
proof (cases r1)
  case (Inl e)
  with assms(1) show ?thesis by (simp add: rejects_def)
next
  case (Inr u)
  from assms(2) [OF Inr] have "rejects b2 r2" .
  with Inr assms(1) show ?thesis by (cases r2) (simp_all add: rejects_def)
qed

lemma rejects_ok: "rejects False (Inr ())"
  by (simp add: rejects_def)

lemma rejects_error: "rejects b (Inl (NotWellFormed msg))"
  by (simp add: rejects_def)

lemma rejects_get_link:
  "rejects False (case PointerMap_get_link tn val m of Inl e \<Rightarrow> Inl e | Inr i \<Rightarrow> Inr ())"
  by (simp add: PointerMap_get_link_def get_raw_def rejects_def split: option.splits)

lemma rejects_OptLink: "rejects False (OptLink_check_complete tn val m)"
  using rejects_get_link [of tn val m] by (simp add: OptLink_check_complete_def rejects_ok)

lemma rejects_Link: "rejects False (Link_check_complete tn val m)"
  using rejects_get_link [of tn val m] by (simp add: Link_check_complete_def rejects_error)

lemma check_complete_rejects:
  "rejects (node_has_empty_mandatory n) (node_check_complete n m)"
  "rejects (fields_has_empty_mandatory fs) (fields_check_complete fs m)"
  "rejects (edge_has_empty_mandatory e) (check_complete e m)"
  "rejects (ptr_has_empty_mandatory v) (Maybe_check_complete v m)"
  "rejects (Maybe_empty v' \<or> ptr_has_empty_mandatory v') (One_check_complete tn v' m)"
  "rejects (vec_has_empty_mandatory vec) (Any_check_complete tn' vec m)"
  "rejects (Any_empty vec' \<or> vec_has_empty_mandatory vec') (Many_check_complete tn'' vec' m)"
proof (induction n m and fs m and e m and v m and tn v' m and tn' vec m and tn'' vec' m
    rule: node_check_complete_fields_check_complete_check_complete_Maybe_check_complete_One_check_complete_Any_check_complete_Many_check_complete.induct)
  case (1 a t fs m)
  then show ?case by simp
next
  case (2 m)
  show ?case by (simp add: rejects_ok)
next
  case (3 f fs m)
  from rejects_seq [OF "3.IH"(1) "3.IH"(2)] show ?case by simp
next
  case (4 tn val m)
  then show ?case by simp
next
  case (5 tn val m)
  then show ?case by simp
next
  case (6 tn vec m)
  then show ?case by simp
next
  case (7 tn vec m)
  then show ?case by simp
next
  case (8 tn val m)
  show ?case by (simp add: rejects_OptLink)
next
  case (9 tn val m)
  show ?case by (simp add: rejects_Link)
next
  case (10 m)
  show ?case by (simp add: rejects_ok)
next
  case (11 n m)
  then show ?case by simp
next
  case (12 tn m)
  show ?case by (simp add: rejects_error)
next
  case (13 tn n m)
  then show ?case by (simp add: Maybe_empty_def)
next
  case (14 tn m)
  show ?case by (simp add: rejects_ok)
next
  case (15 tn sptr vec m)
  from rejects_seq [OF "15.IH"(1) "15.IH"(2)] show ?case by (simp add: disj_assoc)
next
  case (16 tn vec m)
  show ?case
  proof (cases "Any_empty vec")
    case True
    then show ?thesis by (simp add: rejects_error)
  next
    case False
    with "16.IH" show ?thesis by simp
  qed
qed

lemma is_NotWellFormed_iff: "is_NotWellFormed e \<longleftrightarrow> (\<exists>msg. e = NotWellFormed msg)"
  by (cases e) simp_all

lemma find_reachable_error:
  "find_reachable e m = Inl err \<Longrightarrow> is_NotWellFormed err"
  using find_reachable_registers(3) [of e m] by (simp add: registers_def)

lemma check_well_formed_rejects: "rejects (edge_has_empty_mandatory e) (check_well_formed e)"
proof (cases "find_reachable e []")
  case (Inl err)
  then have "is_NotWellFormed err" by (rule find_reachable_error)
  with Inl show ?thesis by (simp add: check_well_formed_def rejects_def)
next
  case (Inr m)
  with check_complete_rejects(3) [of e m] show ?thesis by (simp add: check_well_formed_def)
qed

text \<open>
  C5. \<^verbatim>\<open>find_reachable\<close> on a link edge registers nothing and descends nowhere.
  On any edge \<open>e\<close> it registers exactly the identities of the nodes owned below \<open>e\<close>, in
  depth-first pre-order, each with the next sequence number (the numbers
  \<open>length m, length m + 1, ...\<close> after a map \<open>m\<close>), provided none of them is registered
  yet and none comes twice; otherwise it fails with a \<^verbatim>\<open>NotWellFormed\<close>. A node
  whose identity is registered already fails at once, whatever it owns.
\<close>

theorem C5_find_reachable_preorder:
  "find_reachable (OptLink_edge tn l) m = Inr m \<and>
   find_reachable (Link_edge tn l) m = Inr m \<and>
   edge_preorder (OptLink_edge tn l) = [] \<and>
   edge_preorder (Link_edge tn l) = [] \<and>
   (unregistered (edge_preorder e) m \<longrightarrow>
      find_reachable e m =
        Inr (m @ zip (map Some (edge_preorder e))
                     [length m ..< length m + length (edge_preorder e)])) \<and>
   (\<not> unregistered (edge_preorder e) m \<longrightarrow>
      (\<exists>msg. find_reachable e m = Inl (NotWellFormed msg))) \<and>
   (map_of m (Some (node_addr n)) \<noteq> None \<longrightarrow>
      (\<exists>msg. Maybe_find_reachable tn (Some n) m = Inl (NotWellFormed msg)))"
proof -
  have links: "find_reachable (OptLink_edge tn l) m = Inr m"
    "find_reachable (Link_edge tn l) m = Inr m"
    by (simp_all add: OptLink_find_reachable_def)
  have ok: "find_reachable e m =
      Inr (m @ zip (map Some (edge_preorder e)) [length m ..< length m + length (edge_preorder e)])"
    if "unregistered (edge_preorder e) m"
  proof (cases "find_reachable e m")
    case (Inl err)
    with find_reachable_registers(3) [of e m] that show ?thesis by (simp add: registers_def)
  next
    case (Inr m')
    with find_reachable_registers(3) [of e m] have "m' = register_all (edge_preorder e) m"
      by (simp add: registers_def)
    with Inr show ?thesis by (simp add: register_all_zip)
  qed
  have dup: "\<exists>msg. find_reachable e m = Inl (NotWellFormed msg)"
    if "\<not> unregistered (edge_preorder e) m"
  proof (cases "find_reachable e m")
    case (Inl err)
    with find_reachable_registers(3) [of e m] have "is_NotWellFormed err"
      by (simp add: registers_def)
    with Inl show ?thesis by (simp add: is_NotWellFormed_iff)
  next
    case (Inr m')
    with find_reachable_registers(3) [of e m] that show ?thesis by (simp add: registers_def)
  qed
  have at_once: "\<exists>msg. Maybe_find_reachable tn (Some n) m = Inl (NotWellFormed msg)"
    if "map_of m (Some (node_addr n)) \<noteq> None"
  proof -
    from that have "PointerMap_add tn (Some n) m =
        Inl (NotWellFormed (''Duplicate node of type '' @ tn @ '' found in tree''))"
      by (simp add: PointerMap_add_Some)
    then show ?thesis by simp
  qed
  from links ok dup at_once show ?thesis by simp
qed

theorem C5_find_reachable_preorder_witness:
  "unregistered (edge_preorder (Maybe_edge ''R'' scenario_tree)) [] \<and>
   find_reachable (Maybe_edge ''R'' scenario_tree) [] =
     Inr [(Some 100, 0), (Some 101, 1), (Some 102, 2)] \<and>
   \<not> unregistered (edge_preorder (Maybe_edge ''R'' aliased_tree)) [] \<and>
   (\<exists>msg. find_reachable (Maybe_edge ''R'' aliased_tree) [] = Inl (NotWellFormed msg)) \<and>
   map_of [(Some 200, 7)] (Some (node_addr (Node 200 ''X'' []))) \<noteq> None \<and>
   (\<exists>msg. Maybe_find_reachable ''X'' (Some (Node 200 ''X'' [])) [(Some 200, 7)] =
      Inl (NotWellFormed msg))"
  using C5_find_reachable_preorder [of "''R''" None "[]" "Maybe_edge ''R'' scenario_tree"
      "Node 200 ''X'' []"]
    C5_find_reachable_preorder [of "''X''" None "[(Some 200, 7)]" "Maybe_edge ''R'' aliased_tree"
      "Node 200 ''X'' []"]
    C5_find_reachable_preorder [of "''X''" None "[]" "Maybe_edge ''R'' aliased_tree"
      "Node 200 ''X'' []"]
  by (simp add: scenario_tree_def aliased_tree_def unregistered_def upt_rec)

text \<open>
  C6. The completeness check of an empty \<^verbatim>\<open>One\<close> and of an empty
  \<^verbatim>\<open>Many\<close> fails with the \<^verbatim>\<open>NotWellFormed\<close> whose message names
  \<^verbatim>\<open>typeid(T).name()\<close> of the edge, and so does \<^verbatim>\<open>check_well_formed\<close> on
  that edge. \<^verbatim>\<open>check_well_formed\<close> on any edge with an empty \<^verbatim>\<open>One\<close> or
  \<^verbatim>\<open>Many\<close> among the edges owned below it fails with a \<^verbatim>\<open>NotWellFormed\<close>.
  Constructing an empty edge, and emptying one, has no error result: the constructors and
  \<^verbatim>\<open>reset\<close> return the empty edge.
\<close>

theorem C6_mandatory_empty:
  "One_check_complete tn None m = Inl (NotWellFormed ('''One' edge of type '' @ tn @ '' is empty'')) \<and>
   Many_check_complete tn [] m = Inl (NotWellFormed ('''Many' edge of type '' @ tn @ '' is empty'')) \<and>
   check_well_formed (One_edge tn None) =
     Inl (NotWellFormed ('''One' edge of type '' @ tn @ '' is empty'')) \<and>
   check_well_formed (Many_edge tn []) =
     Inl (NotWellFormed ('''Many' edge of type '' @ tn @ '' is empty'')) \<and>
   (edge_has_empty_mandatory e \<longrightarrow> (\<exists>msg. check_well_formed e = Inl (NotWellFormed msg))) \<and>
   Maybe_empty (Maybe_new :: node shared_ptr) \<and> Maybe_empty (Maybe_reset val) \<and>
   Any_empty (Any_new :: node shared_ptr list) \<and> Any_empty (Any_reset vec)"
proof -
  have tree: "\<exists>msg. check_well_formed e = Inl (NotWellFormed msg)" if "edge_has_empty_mandatory e"
  proof (cases "check_well_formed e")
    case (Inl err)
    with check_well_formed_rejects [of e] have "is_NotWellFormed err" by (simp add: rejects_def)
    with Inl show ?thesis by (simp add: is_NotWellFormed_iff)
  next
    case (Inr u)
    with check_well_formed_rejects [of e] that show ?thesis by (simp add: rejects_def)
  qed
  have edges: "check_well_formed (One_edge tn None) =
       Inl (NotWellFormed ('''One' edge of type '' @ tn @ '' is empty''))"
    "check_well_formed (Many_edge tn []) =
       Inl (NotWellFormed ('''Many' edge of type '' @ tn @ '' is empty''))"
    by (simp_all add: check_well_formed_def Any_empty_def)
  from tree edges show ?thesis
    by (simp add: Any_empty_def Maybe_empty_def Maybe_new_def Maybe_reset_def Any_new_def
        Any_reset_def)
qed

theorem C6_mandatory_empty_witness:
  "edge_has_empty_mandatory
     (Maybe_edge ''R'' (Some (Node 100 ''R''
        [(''kids'', Any_edge ''K'' [Some (Node 101 ''K'' [(''sub'', One_edge ''L'' None)])])]))) \<and>
   (\<exists>msg. check_well_formed
     (Maybe_edge ''R'' (Some (Node 100 ''R''
        [(''kids'', Any_edge ''K'' [Some (Node 101 ''K'' [(''sub'', One_edge ''L'' None)])])]))) =
      Inl (NotWellFormed msg))"
  using C6_mandatory_empty [of "''L''" "[]"
      "Maybe_edge ''R'' (Some (Node 100 ''R''
        [(''kids'', Any_edge ''K'' [Some (Node 101 ''K'' [(''sub'', One_edge ''L'' None)])])]))"
      "None :: node shared_ptr" "[] :: node shared_ptr list"]
  by (simp add: Maybe_empty_def)

section \<open>Properties of serialization and deserialization\<close>

lemma get_raw_null:
  "map_of ids None = None \<Longrightarrow>
   PointerMap_get_link tn None ids =
     Inl (NotWellFormed (''Link to node of type '' @ tn @ '' not found in tree''))"
  by (simp add: PointerMap_get_link_def get_raw_def)

lemma find_reachable_no_null:
  assumes "find_reachable e [] = Inr ids"
  shows "map_of ids None = None"
proof -
  from assms find_reachable_registers(3) [of e "[]"]
  have "ids = register_all (edge_preorder e) []" by (simp add: registers_def)
  then have "fst ` set ids = Some ` set (edge_preorder e)" by (simp add: keys_register_all)
  then have "None \<notin> fst ` set ids" by auto
  then show ?thesis by (simp add: map_of_eq_None_iff)
qed

lemma OptLink_serialize_empty_raises:
  "find_reachable e [] = Inr ids \<Longrightarrow>
   \<exists>msg. OptLink_serialize cls tn None w ids = Inl (NotWellFormed msg)"
  by (simp add: OptLink_serialize_def get_raw_null find_reachable_no_null)

text \<open>
  C2. Serializing an optional link with no target never yields a map that lacks the
  \<^verbatim>\<open>@l\<close> entry: \<^verbatim>\<open>OptLink::serialize\<close> either raises \<^verbatim>\<open>NotWellFormed\<close>
  or has appended \<^verbatim>\<open>@l\<close>. With the map \<^verbatim>\<open>find_reachable\<close> builds for a tree, where
  the null pointer is never registered, it raises.
\<close>

theorem C2_empty_optlink_serialize:
  "(case OptLink_serialize OptLink_class tn None w ids of
      Inl e \<Rightarrow> is_NotWellFormed e
    | Inr w' \<Rightarrow> ''@l'' \<in> fst ` set w') \<and>
   find_reachable (Maybe_edge ''R'' optlink_tree) [] = Inr [(Some 100, 0)] \<and>
   (\<exists>msg. OptLink_serialize OptLink_class ''R'' None [] [(Some 100, 0)] = Inl (NotWellFormed msg))"
proof -
  have general: "case OptLink_serialize OptLink_class tn None w ids of
      Inl e \<Rightarrow> is_NotWellFormed e
    | Inr w' \<Rightarrow> ''@l'' \<in> fst ` set w'"
    by (cases "map_of ids None")
      (simp_all add: OptLink_serialize_def PointerMap_get_link_def get_raw_def append_int_def)
  have ids: "find_reachable (Maybe_edge ''R'' optlink_tree) [] = Inr [(Some 100, 0)]"
    by (simp add: optlink_tree_def PointerMap_add_def add_raw_def OptLink_find_reachable_def)
  have raises: "\<exists>msg. OptLink_serialize OptLink_class ''R'' None [] [(Some 100, 0)] =
      Inl (NotWellFormed msg)"
    by (simp add: OptLink_serialize_def PointerMap_get_link_def get_raw_def)
  from general ids raises show ?thesis by simp
qed

text \<open>
  C1. The tree \<open>optlink_tree\<close> is well-formed, and serializing it raises
  \<^verbatim>\<open>NotWellFormed\<close>: there are no bytes to deserialize.
\<close>

theorem C1_round_trip_fails:
  "check_well_formed (Maybe_edge ''R'' optlink_tree) = Inr () \<and>
   is_well_formed (Maybe_edge ''R'' optlink_tree) \<and>
   (\<exists>msg. serialize ''R'' optlink_tree = Inl (NotWellFormed msg))"
proof -
  have wf: "check_well_formed (Maybe_edge ''R'' optlink_tree) = Inr ()"
    by (simp add: check_well_formed_def optlink_tree_def PointerMap_add_def add_raw_def
        OptLink_find_reachable_def OptLink_check_complete_def OptLink_empty_def)
  have ser: "\<exists>msg. serialize ''R'' optlink_tree = Inl (NotWellFormed msg)"
    by (simp add: serialize_def optlink_tree_def PointerMap_add_def add_raw_def
        OptLink_find_reachable_def OptLink_check_complete_def OptLink_empty_def
        PointerMap_get_def PointerMap_get_link_def get_raw_def OptLink_serialize_def)
  from wf ser show ?thesis by (simp add: is_well_formed_def)
qed

text \<open>A round trip that succeeds: a \<^verbatim>\<open>Leaf\<close> whose link is set to itself.\<close>

lemma round_trip_example:
  "serialize ''Leaf'' (Some (Node 0 ''Leaf'' [(''ref'', Link_edge ''Leaf'' (Some 0))])) =
     Inr (leaf_doc ''?'' [(''@l'', CInt 0)]) \<and>
   deserialize Leaf_deserialize ''Leaf'' (leaf_doc ''?'' [(''@l'', CInt 0)]) =
     Inr (Some (Node 0 ''Leaf'' [(''ref'', Link_edge ''Leaf'' (Some 0))]))"
  by (simp add: serialize_def deserialize_def leaf_doc_def Leaf_deserialize_def
      Maybe_deserialize_def OptLink_deserialize_def MapReader_at_def IdentifierMap_new_def
      register_node_def register_link_def restore_links_def size_t_of_int_def
      check_well_formed_def PointerMap_add_def add_raw_def OptLink_find_reachable_def
      Link_check_complete_def OptLink_empty_def PointerMap_get_def PointerMap_get_link_def
      get_raw_def OptLink_serialize_def append_string_def append_int_def append_map_def)

text \<open>
  C4. When the \<^verbatim>\<open>@T\<close> entry of the map is a string other than the tag of the edge's
  class, \<^verbatim>\<open>deserialize\<close> of \<^verbatim>\<open>Maybe\<close>/\<^verbatim>\<open>One\<close>, of
  \<^verbatim>\<open>Any\<close>/\<^verbatim>\<open>Many\<close> and of \<^verbatim>\<open>OptLink\<close>/\<^verbatim>\<open>Link\<close> raises
  \<^verbatim>\<open>RuntimeError("Schema validation failed: unexpected edge type")\<close>, which is a
  \<^verbatim>\<open>RuntimeError\<close> and not a \<^verbatim>\<open>NotWellFormed\<close>.
\<close>

theorem C4_tag_mismatch:
  "MapReader_at rd ''@T'' = Inr v \<and> as_string v = Inr tag \<and> tag \<noteq> serdes_edge_type cls \<longrightarrow>
   Maybe_deserialize cls nd rd ids =
     Inl (RuntimeError ''Schema validation failed: unexpected edge type'') \<and>
   Any_deserialize cls nd rd vec ids =
     Inl (RuntimeError ''Schema validation failed: unexpected edge type'') \<and>
   OptLink_deserialize cls rd ids =
     Inl (RuntimeError ''Schema validation failed: unexpected edge type'') \<and>
   \<not> is_NotWellFormed (RuntimeError ''Schema validation failed: unexpected edge type'') \<and>
   is_RuntimeError (RuntimeError ''Schema validation failed: unexpected edge type'')"
proof
  assume h: "MapReader_at rd ''@T'' = Inr v \<and> as_string v = Inr tag \<and> tag \<noteq> serdes_edge_type cls"
  have single: "Maybe_deserialize cls nd rd ids =
      Inl (RuntimeError ''Schema validation failed: unexpected edge type'')"
    using h by (simp add: Maybe_deserialize_def)
  have sequence: "Any_deserialize cls nd rd vec ids =
      Inl (RuntimeError ''Schema validation failed: unexpected edge type'')"
    using h by (simp add: Any_deserialize_def)
  have link: "OptLink_deserialize cls rd ids =
      Inl (RuntimeError ''Schema validation failed: unexpected edge type'')"
    using h by (simp add: OptLink_deserialize_def)
  from single sequence link
  show "Maybe_deserialize cls nd rd ids =
      Inl (RuntimeError ''Schema validation failed: unexpected edge type'') \<and>
    Any_deserialize cls nd rd vec ids =
      Inl (RuntimeError ''Schema validation failed: unexpected edge type'') \<and>
    OptLink_deserialize cls rd ids =
      Inl (RuntimeError ''Schema validation failed: unexpected edge type'') \<and>
    \<not> is_NotWellFormed (RuntimeError ''Schema validation failed: unexpected edge type'') \<and>
    is_RuntimeError (RuntimeError ''Schema validation failed: unexpected edge type'')"
    by simp
qed

theorem C4_tag_mismatch_witness:
  "MapReader_at [(''@T'', CString ''1''), (''@t'', CNull)] ''@T'' = Inr (CString ''1'') \<and>
   as_string (CString ''1'') = Inr ''1'' \<and>
   ''1'' \<noteq> serdes_edge_type Maybe_class \<and>
   Maybe_deserialize Maybe_class Leaf_deserialize [(''@T'', CString ''1''), (''@t'', CNull)]
       IdentifierMap_new =
     Inl (RuntimeError ''Schema validation failed: unexpected edge type'') \<and>
   ''1'' \<noteq> serdes_edge_type Many_class \<and>
   Any_deserialize Many_class Leaf_deserialize [(''@T'', CString ''1''), (''@t'', CNull)] []
       IdentifierMap_new =
     Inl (RuntimeError ''Schema validation failed: unexpected edge type'') \<and>
   ''1'' \<noteq> serdes_edge_type Link_class \<and>
   OptLink_deserialize Link_class [(''@T'', CString ''1''), (''@t'', CNull)] IdentifierMap_new =
     Inl (RuntimeError ''Schema validation failed: unexpected edge type'')"
  using C4_tag_mismatch [of "[(''@T'', CString ''1''), (''@t'', CNull)]" "CString ''1''" "''1''"
      Maybe_class Leaf_deserialize IdentifierMap_new "[]"]
    C4_tag_mismatch [of "[(''@T'', CString ''1''), (''@t'', CNull)]" "CString ''1''" "''1''"
      Many_class Leaf_deserialize IdentifierMap_new "[]"]
    C4_tag_mismatch [of "[(''@T'', CString ''1''), (''@t'', CNull)]" "CString ''1''" "''1''"
      Link_class Leaf_deserialize IdentifierMap_new "[]"]
  by (simp add: MapReader_at_def)

text \<open>
  C3. \<^verbatim>\<open>deserialize\<close> decodes, then restores the links, then checks the result for
  well-formedness. A failure of the decoding, of the link restoration or of the check is the
  failure of \<^verbatim>\<open>deserialize\<close>, with that error and no tree; and a tree is returned only
  when all three stages succeeded, the returned tree being the one the check passed.
\<close>

theorem C3_deserialize_stages:
  "(\<forall>e. as_map doc = Inl e \<longrightarrow> deserialize nd tn doc = Inl e) \<and>
   (\<forall>rd e. as_map doc = Inr rd \<and>
       Maybe_deserialize Maybe_class nd rd IdentifierMap_new = Inl e \<longrightarrow>
       deserialize nd tn doc = Inl e) \<and>
   (\<forall>rd tree ids e. as_map doc = Inr rd \<and>
       Maybe_deserialize Maybe_class nd rd IdentifierMap_new = Inr (tree, ids) \<and>
       restore_links ids tree = Inl e \<longrightarrow>
       deserialize nd tn doc = Inl e) \<and>
   (\<forall>rd tree ids tree' e. as_map doc = Inr rd \<and>
       Maybe_deserialize Maybe_class nd rd IdentifierMap_new = Inr (tree, ids) \<and>
       restore_links ids tree = Inr tree' \<and>
       check_well_formed (Maybe_edge tn tree') = Inl e \<longrightarrow>
       deserialize nd tn doc = Inl e) \<and>
   (\<forall>result. deserialize nd tn doc = Inr result \<longrightarrow>
       (\<exists>rd tree ids. as_map doc = Inr rd \<and>
          Maybe_deserialize Maybe_class nd rd IdentifierMap_new = Inr (tree, ids) \<and>
          restore_links ids tree = Inr result \<and>
          check_well_formed (Maybe_edge tn result) = Inr () \<and>
          is_well_formed (Maybe_edge tn result)))"
proof -
  have decode1: "deserialize nd tn doc = Inl e" if "as_map doc = Inl e" for e
    using that by (simp add: deserialize_def)
  have decode2: "deserialize nd tn doc = Inl e"
    if "as_map doc = Inr rd \<and> Maybe_deserialize Maybe_class nd rd IdentifierMap_new = Inl e"
    for rd e
    using that by (simp add: deserialize_def)
  have restore: "deserialize nd tn doc = Inl e"
    if "as_map doc = Inr rd \<and>
        Maybe_deserialize Maybe_class nd rd IdentifierMap_new = Inr (tree, ids) \<and>
        restore_links ids tree = Inl e"
    for rd tree ids e
    using that by (simp add: deserialize_def)
  have check: "deserialize nd tn doc = Inl e"
    if "as_map doc = Inr rd \<and>
        Maybe_deserialize Maybe_class nd rd IdentifierMap_new = Inr (tree, ids) \<and>
        restore_links ids tree = Inr tree' \<and>
        check_well_formed (Maybe_edge tn tree') = Inl e"
    for rd tree ids tree' e
    using that by (simp add: deserialize_def)
  have success: "\<exists>rd tree ids. as_map doc = Inr rd \<and>
          Maybe_deserialize Maybe_class nd rd IdentifierMap_new = Inr (tree, ids) \<and>
          restore_links ids tree = Inr result \<and>
          check_well_formed (Maybe_edge tn result) = Inr () \<and>
          is_well_formed (Maybe_edge tn result)"
    if "deserialize nd tn doc = Inr result" for result
    using that
    by (auto simp: deserialize_def is_well_formed_def split: sum.splits prod.splits)
  from decode1 decode2 restore check success show ?thesis by blast
qed

lemmas leaf_decode_defs = leaf_doc_def Leaf_deserialize_def Maybe_deserialize_def
  OptLink_deserialize_def MapReader_at_def IdentifierMap_new_def register_node_def
  register_link_def size_t_of_int_def

theorem C3_deserialize_stages_witness:
  "deserialize Leaf_deserialize ''Leaf'' (CInt 3) = Inl ReaderError \<and>
   deserialize Leaf_deserialize ''Leaf'' (leaf_doc ''1'' [(''@l'', CInt 0)]) =
     Inl (RuntimeError ''Schema validation failed: unexpected edge type'') \<and>
   deserialize Leaf_deserialize ''Leaf'' (leaf_doc ''?'' [(''@l'', CInt 5)]) =
     Inl (NotWellFormed ''Link to unknown node identifier'') \<and>
   deserialize Leaf_deserialize ''Leaf'' (leaf_doc ''?'' []) =
     Inl (NotWellFormed ('''Link' edge of type Leaf is empty'')) \<and>
   deserialize Leaf_deserialize ''Leaf'' (leaf_doc ''?'' [(''@l'', CInt 0)]) =
     Inr (Some (Node 0 ''Leaf'' [(''ref'', Link_edge ''Leaf'' (Some 0))])) \<and>
   is_well_formed (Maybe_edge ''Leaf'' (Some (Node 0 ''Leaf'' [(''ref'', Link_edge ''Leaf'' (Some 0))])))"
proof -
  let ?nd = Leaf_deserialize
  let ?staged = "Some (Node 0 ''Leaf'' [(''ref'', Link_edge ''Leaf'' None)])"
  let ?linked = "Some (Node 0 ''Leaf'' [(''ref'', Link_edge ''Leaf'' (Some 0))])"
  have s1: "as_map (CInt 3) = Inl ReaderError" by simp
  obtain rd2 where m2: "as_map (leaf_doc ''1'' [(''@l'', CInt 0)]) = Inr rd2"
    and d2: "Maybe_deserialize Maybe_class ?nd rd2 IdentifierMap_new =
      Inl (RuntimeError ''Schema validation failed: unexpected edge type'')"
    by (simp add: leaf_decode_defs)
  obtain rd3 where m3: "as_map (leaf_doc ''?'' [(''@l'', CInt 5)]) = Inr rd3"
    and d3: "Maybe_deserialize Maybe_class ?nd rd3 IdentifierMap_new =
      Inr (?staged, \<lparr>nodes = [(0, 0)], links = [((0, ''ref''), 5)]\<rparr>)"
    by (simp add: leaf_decode_defs)
  have r3: "restore_links \<lparr>nodes = [(0, 0)], links = [((0, ''ref''), 5)]\<rparr> ?staged =
      Inl (NotWellFormed ''Link to unknown node identifier'')"
    by (simp add: restore_links_def)
  obtain rd4 where m4: "as_map (leaf_doc ''?'' []) = Inr rd4"
    and d4: "Maybe_deserialize Maybe_class ?nd rd4 IdentifierMap_new =
      Inr (?staged, \<lparr>nodes = [(0, 0)], links = []\<rparr>)"
    by (simp add: leaf_decode_defs)
  have r4: "restore_links \<lparr>nodes = [(0, 0)], links = []\<rparr> ?staged = Inr ?staged"
    by (simp add: restore_links_def)
  have c4: "check_well_formed (Maybe_edge ''Leaf'' ?staged) =
      Inl (NotWellFormed ('''Link' edge of type Leaf is empty''))"
    by (simp add: check_well_formed_def PointerMap_add_def add_raw_def
        OptLink_find_reachable_def Link_check_complete_def OptLink_empty_def)
  have ok: "deserialize ?nd ''Leaf'' (leaf_doc ''?'' [(''@l'', CInt 0)]) = Inr ?linked"
    using round_trip_example by simp
  from C3_deserialize_stages [of "CInt 3" ?nd "''Leaf''"] s1
  have w1: "deserialize ?nd ''Leaf'' (CInt 3) = Inl ReaderError" by blast
  from C3_deserialize_stages [of "leaf_doc ''1'' [(''@l'', CInt 0)]" ?nd "''Leaf''"] m2 d2
  have w2: "deserialize ?nd ''Leaf'' (leaf_doc ''1'' [(''@l'', CInt 0)]) =
      Inl (RuntimeError ''Schema validation failed: unexpected edge type'')" by blast
  from C3_deserialize_stages [of "leaf_doc ''?'' [(''@l'', CInt 5)]" ?nd "''Leaf''"] m3 d3 r3
  have w3: "deserialize ?nd ''Leaf'' (leaf_doc ''?'' [(''@l'', CInt 5)]) =
      Inl (NotWellFormed ''Link to unknown node identifier'')" by blast
  from C3_deserialize_stages [of "leaf_doc ''?'' []" ?nd "''Leaf''"] m4 d4 r4 c4
  have w4: "deserialize ?nd ''Leaf'' (leaf_doc ''?'' []) =
      Inl (NotWellFormed ('''Link' edge of type Leaf is empty''))" by blast
  from C3_deserialize_stages [of "leaf_doc ''?'' [(''@l'', CInt 0)]" ?nd "''Leaf''"] ok
  have w5: "is_well_formed (Maybe_edge ''Leaf'' ?linked)" by blast
  from w1 w2 w3 w4 ok w5 show ?thesis by blast
qed

end
